theory Spec2Isabelle
  imports Complex_Main
begin

section \<open>Python strings and pandas cells\<close>

text \<open>
  A Python \<open>str\<close> is modelled as a \<open>string\<close> whose characters are the code points
  0..255 (Latin-1), which covers every literal of the repository: the only non-ASCII
  literal is the accented i of the affirmative illness label, code point 0xED.
  \<open>str.lower\<close> and \<open>str.strip\<close> are written out for that range as Python
  defines them.
\<close>

definition lower_char :: "char \<Rightarrow> char" where
  "lower_char c =
     (let n = (of_char c :: nat)
      in if (65 \<le> n \<and> n \<le> 90) \<or> (192 \<le> n \<and> n \<le> 222 \<and> n \<noteq> 215)
         then char_of (n + 32) else c)"

definition lower :: "string \<Rightarrow> string" where
  "lower s = map lower_char s"

definition is_space :: "char \<Rightarrow> bool" where
  "is_space c =
     (let n = (of_char c :: nat)
      in (9 \<le> n \<and> n \<le> 13) \<or> (28 \<le> n \<and> n \<le> 32) \<or> n = 133 \<or> n = 160)"

definition strip :: "string \<Rightarrow> string" where
  "strip s = rev (dropWhile is_space (rev (dropWhile is_space s)))"

text \<open>
  A cell of a DataFrame: a Python string, a number, the float NaN, or \<open>None\<close>.
  Numbers are exact rationals: float rounding error is outside the model.
\<close>

datatype cell = Str string | Num rat | NaN | PyNone

fun isnull :: "cell \<Rightarrow> bool" where
  "isnull NaN = True"
| "isnull PyNone = True"
| "isnull _ = False"

datatype dtype = ObjectT | NumericT

type_synonym row = "string \<rightharpoonup> cell"

record dataframe =
  columns :: "string list"
  dtypes :: "string \<Rightarrow> dtype"
  rows :: "row list"

text \<open>
  Library functions of Python and pandas that the repository calls on cell contents and
  whose text format is not the repository's: \<open>str\<close> of a number and the numeric
  parser of \<open>pd.to_numeric\<close>. They are parameters of the model.
\<close>

record pylib =
  str_of_num :: "rat \<Rightarrow> string"
  num_of_str :: "string \<Rightarrow> rat option"

text \<open>Exceptions carry the text that \<open>str(e)\<close> gives.\<close>

datatype exn =
    KeyError string
  | IndexError string
  | AttributeError string
  | TypeError string
  | ValueError string
  | IOError string
  | InvalidOperation string
  | RequestException string
  | DatabaseError string
  | PlainException string

fun exn_text :: "exn \<Rightarrow> string" where
  "exn_text (KeyError s) = s"
| "exn_text (IndexError s) = s"
| "exn_text (AttributeError s) = s"
| "exn_text (TypeError s) = s"
| "exn_text (ValueError s) = s"
| "exn_text (IOError s) = s"
| "exn_text (InvalidOperation s) = s"
| "exn_text (RequestException s) = s"
| "exn_text (DatabaseError s) = s"
| "exn_text (PlainException s) = s"

definition cellv :: "row \<Rightarrow> string \<Rightarrow> cell" where
  "cellv r c = (case r c of Some v \<Rightarrow> v | None \<Rightarrow> NaN)"

text \<open>\<open>df[col] = f(row)\<close>: a column assignment, creating the column when it is new.\<close>

definition assign :: "string \<Rightarrow> dtype \<Rightarrow> (row \<Rightarrow> cell) \<Rightarrow> dataframe \<Rightarrow> dataframe" where
  "assign col ty f df =
     df\<lparr>columns := (if col \<in> set (columns df) then columns df else columns df @ [col]),
        dtypes := (dtypes df)(col := ty),
        rows := map (\<lambda>r. r(col \<mapsto> f r)) (rows df)\<rparr>"

definition drop_column :: "string \<Rightarrow> dataframe \<Rightarrow> dataframe" where
  "drop_column col df =
     df\<lparr>columns := filter (\<lambda>c. c \<noteq> col) (columns df),
        rows := map (\<lambda>r. r(col := None)) (rows df)\<rparr>"

definition select_columns :: "string list \<Rightarrow> dataframe \<Rightarrow> dataframe" where
  "select_columns cols df =
     df\<lparr>columns := cols, rows := map (\<lambda>r. r |` set cols) (rows df)\<rparr>"


fun astype_str :: "pylib \<Rightarrow> cell \<Rightarrow> string" where
  "astype_str L (Str s) = s"
| "astype_str L (Num x) = str_of_num L x"
| "astype_str L NaN = ''nan''"
| "astype_str L PyNone = ''None''"

fun to_numeric :: "pylib \<Rightarrow> cell \<Rightarrow> cell" where
  "to_numeric L (Num x) = Num x"
| "to_numeric L (Str s) = (case num_of_str L s of Some x \<Rightarrow> Num x | None \<Rightarrow> NaN)"
| "to_numeric L NaN = NaN"
| "to_numeric L PyNone = NaN"

text \<open>The \<open>.str\<close> methods give NaN on an element that is not a string.\<close>

fun str_lower :: "cell \<Rightarrow> cell" where
  "str_lower (Str s) = Str (lower s)"
| "str_lower _ = NaN"

fun str_strip :: "cell \<Rightarrow> cell" where
  "str_strip (Str s) = Str (strip s)"
| "str_strip _ = NaN"

text \<open>\<open>Series.map(dict)\<close>: a key that the dictionary lacks gives NaN.\<close>

fun series_map :: "(string \<rightharpoonup> string) \<Rightarrow> cell \<Rightarrow> cell" where
  "series_map d (Str s) = (case d s of Some v \<Rightarrow> Str v | None \<Rightarrow> NaN)"
| "series_map d _ = NaN"

text \<open>Arithmetic of a numeric column; NaN propagates.\<close>

fun cell_div :: "cell \<Rightarrow> rat \<Rightarrow> cell" where
  "cell_div (Num x) k = Num (x / k)"
| "cell_div _ k = NaN"

fun cell_mul :: "cell \<Rightarrow> rat \<Rightarrow> cell" where
  "cell_mul (Num x) k = Num (x * k)"
| "cell_mul _ k = NaN"

text \<open>\<open>round(2)\<close> of numpy: the nearest multiple of 0.01, a tie going to the even one.\<close>

definition round_half_even :: "rat \<Rightarrow> int" where
  "round_half_even x =
     (let f = \<lfloor>x\<rfloor>; d = x - of_int f
      in if d < 1 / 2 then f else if 1 / 2 < d then f + 1
         else if even f then f else f + 1)"

definition round2 :: "rat \<Rightarrow> rat" where
  "round2 x = of_int (round_half_even (x * 100)) / 100"

fun cell_round2 :: "cell \<Rightarrow> cell" where
  "cell_round2 (Num x) = Num (round2 x)"
| "cell_round2 _ = NaN"

section \<open>The transformer (etl/transformer.py, etl/transformer\_optimized.py)\<close>

definition accent_i :: char where
  "accent_i = char_of (237 :: nat)"

definition Si :: string where
  "Si = [CHR ''S'', accent_i]"

definition gender_translation :: "string \<rightharpoonup> string" where
  "gender_translation = map_of
     [(''male'', ''Masculino''), (''female'', ''Femenino''),
      (''m'', ''Masculino''), (''f'', ''Femenino'')]"

definition illness_translation :: "string \<rightharpoonup> string" where
  "illness_translation = map_of
     [(''yes'', Si), (''no'', ''No''), (''y'', Si), (''n'', ''No''),
      (''true'', Si), (''false'', ''No''), (''1'', Si), (''0'', ''No'')]"

text \<open>
  The transformer object. \<open>trm_service = Some v\<close> stands for a configured rate service
  whose \<open>obtener_trm_actual()\<close> answers \<open>v\<close> when it is called; \<open>trm_calls\<close> counts
  the calls the transformer makes to it.
\<close>

record transformer =
  trm_service :: "rat option"
  current_trm :: "rat option"
  trm_calls :: nat

subsection \<open>Cleaning\<close>

definition strip_text_columns :: "pylib \<Rightarrow> dataframe \<Rightarrow> dataframe" where
  "strip_text_columns L df =
     fold (\<lambda>col d. assign col ObjectT (\<lambda>r. Str (strip (astype_str L (cellv r col)))) d)
          (filter (\<lambda>c. dtypes df c = ObjectT) (columns df)) df"

definition numeric_column :: "pylib \<Rightarrow> string \<Rightarrow> dataframe \<Rightarrow> dataframe" where
  "numeric_column L col df =
     (if col \<in> set (columns df)
      then assign col NumericT (\<lambda>r. to_numeric L (cellv r col)) df else df)"

text \<open>
  \<open>df[col].str.lower().str.strip()\<close>: the \<open>.str\<close> accessor raises AttributeError on a
  column that is not of object dtype.
\<close>

definition normalize_text :: "string \<Rightarrow> dataframe \<Rightarrow> exn + dataframe" where
  "normalize_text col df =
     (if col \<in> set (columns df)
      then (if dtypes df col = ObjectT
            then Inr (assign col ObjectT (\<lambda>r. str_strip (str_lower (cellv r col))) df)
            else Inl (AttributeError col))
      else Inr df)"

definition critical_columns :: "string list" where
  "critical_columns = [''name'', ''age'', ''gender'', ''income'', ''illness'']"

definition complete_row :: "row \<Rightarrow> bool" where
  "complete_row r = list_all (\<lambda>c. \<not> isnull (cellv r c)) critical_columns"

definition dropna :: "dataframe \<Rightarrow> exn + dataframe" where
  "dropna df =
     (case filter (\<lambda>c. c \<notin> set (columns df)) critical_columns of
        [] \<Rightarrow> Inr (df\<lparr>rows := filter complete_row (rows df)\<rparr>)
      | c # _ \<Rightarrow> Inl (KeyError c))"

definition clean_data :: "pylib \<Rightarrow> dataframe \<Rightarrow> exn + dataframe" where
  "clean_data L df =
     (let d1 = strip_text_columns L df;
          d2 = numeric_column L ''age'' d1;
          d3 = numeric_column L ''income'' d2
      in case normalize_text ''gender'' d3 of
           Inl e \<Rightarrow> Inl e
         | Inr d4 \<Rightarrow>
             (case normalize_text ''illness'' d4 of
                Inl e \<Rightarrow> Inl e
              | Inr d5 \<Rightarrow> dropna d5))"

text \<open>
  \<open>_clean_data_optimized\<close> strips all text columns in one assignment and drops rows by a
  boolean mask; per cell it is the same computation.
\<close>

definition clean_data_optimized :: "pylib \<Rightarrow> dataframe \<Rightarrow> exn + dataframe" where
  "clean_data_optimized L df =
     (let d1 = (if filter (\<lambda>c. dtypes df c = ObjectT) (columns df) \<noteq> []
                then strip_text_columns L df else df);
          d2 = numeric_column L ''age'' d1;
          d3 = numeric_column L ''income'' d2
      in case normalize_text ''gender'' d3 of
           Inl e \<Rightarrow> Inl e
         | Inr d4 \<Rightarrow>
             (case normalize_text ''illness'' d4 of
                Inl e \<Rightarrow> Inl e
              | Inr d5 \<Rightarrow> dropna d5))"

subsection \<open>Field transformations\<close>

definition any_null :: "string \<Rightarrow> dataframe \<Rightarrow> bool" where
  "any_null col df = list_ex (\<lambda>r. isnull (cellv r col)) (rows df)"

definition fill_from :: "string \<Rightarrow> (row \<Rightarrow> cell) \<Rightarrow> dataframe \<Rightarrow> dataframe" where
  "fill_from col f df =
     assign col ObjectT (\<lambda>r. if isnull (cellv r col) then f r else cellv r col) df"

definition transform_gender :: "dataframe \<Rightarrow> dataframe" where
  "transform_gender df =
     (let d1 = assign ''genero_es'' ObjectT
                 (\<lambda>r. series_map gender_translation (cellv r ''gender'')) df
      in if any_null ''genero_es'' d1
         then fill_from ''genero_es'' (\<lambda>r. cellv r ''gender'') d1 else d1)"

definition transform_gender_vectorized :: "dataframe \<Rightarrow> dataframe" where
  "transform_gender_vectorized df =
     (let d1 = assign ''genero_es'' ObjectT
                 (\<lambda>r. series_map gender_translation (cellv r ''gender'')) df
      in if any_null ''genero_es'' d1
         then fill_from ''genero_es'' (\<lambda>r. cellv r ''gender'') d1 else d1)"

definition transform_illness :: "dataframe \<Rightarrow> dataframe" where
  "transform_illness df =
     (let d1 = assign ''Illness'' ObjectT (\<lambda>r. cellv r ''illness'') df;
          d2 = assign ''enfermedad_es'' ObjectT
                 (\<lambda>r. series_map illness_translation (cellv r ''illness'')) d1
      in if any_null ''enfermedad_es'' d2
         then fill_from ''enfermedad_es'' (\<lambda>r. Str ''No'') d2 else d2)"

definition transform_illness_vectorized :: "dataframe \<Rightarrow> dataframe" where
  "transform_illness_vectorized df =
     (let d1 = assign ''Illness'' ObjectT (\<lambda>r. cellv r ''illness'') df;
          d2 = assign ''enfermedad_es'' ObjectT
                 (\<lambda>r. series_map illness_translation (cellv r ''illness'')) d1
      in if any_null ''enfermedad_es'' d2
         then fill_from ''enfermedad_es'' (\<lambda>r. Str ''No'') d2 else d2)"

definition transform_age_to_lustros :: "dataframe \<Rightarrow> dataframe" where
  "transform_age_to_lustros df =
     (let d1 = assign ''edad_lustros'' NumericT (\<lambda>r. cell_div (cellv r ''age'') 5) df
      in assign ''edad_lustros'' NumericT (\<lambda>r. cell_round2 (cellv r ''edad_lustros'')) d1)"

definition transform_age_to_lustros_vectorized :: "dataframe \<Rightarrow> dataframe" where
  "transform_age_to_lustros_vectorized df =
     assign ''edad_lustros'' NumericT
       (\<lambda>r. cell_round2 (cell_div (cellv r ''age'') 5)) df"

definition transform_income_to_cop :: "rat \<Rightarrow> dataframe \<Rightarrow> dataframe" where
  "transform_income_to_cop trm df =
     (let d1 = assign ''ingreso_cop'' NumericT (\<lambda>r. cell_mul (cellv r ''income'') trm) df;
          d2 = assign ''ingreso_cop'' NumericT (\<lambda>r. cell_round2 (cellv r ''ingreso_cop'')) d1
      in assign ''trm_utilizada'' NumericT (\<lambda>r. Num trm) d2)"

definition transform_income_to_cop_vectorized :: "rat \<Rightarrow> dataframe \<Rightarrow> dataframe" where
  "transform_income_to_cop_vectorized trm df =
     (let d1 = assign ''ingreso_cop'' NumericT
                 (\<lambda>r. cell_round2 (cell_mul (cellv r ''income'') trm)) df
      in assign ''trm_utilizada'' NumericT (\<lambda>r. Num trm) d1)"

subsection \<open>Metadata and column order\<close>

definition desired_order :: "string list" where
  "desired_order =
     [''nombre'', ''edad_anos'', ''edad_lustros'', ''genero_original'', ''genero_es'',
      ''ingreso_usd'', ''ingreso_cop'', ''trm_utilizada'', ''enfermedad_original'',
      ''enfermedad_es'', ''fecha_procesamiento'']"

definition copy_column :: "string \<Rightarrow> string \<Rightarrow> dataframe \<Rightarrow> dataframe" where
  "copy_column src dst df =
     (if src \<in> set (columns df)
      then assign dst (dtypes df src) (\<lambda>r. cellv r src) df else df)"

definition add_transformation_metadata :: "string \<Rightarrow> dataframe \<Rightarrow> dataframe" where
  "add_transformation_metadata mysql_timestamp df =
     (let d1 = assign ''fecha_procesamiento'' ObjectT (\<lambda>r. Str mysql_timestamp) df;
          d2 = (if ''illness'' \<in> set (columns d1) then drop_column ''illness'' d1 else d1);
          d3 = (if ''name'' \<in> set (columns d2)
                then drop_column ''name'' (copy_column ''name'' ''nombre'' d2) else d2);
          d4 = copy_column ''age'' ''edad_anos'' d3;
          d5 = copy_column ''income'' ''ingreso_usd'' d4;
          d6 = copy_column ''gender'' ''genero_original'' d5;
          d7 = copy_column ''Illness'' ''enfermedad_original'' d6
      in select_columns (filter (\<lambda>c. c \<in> set (columns d7)) desired_order) d7)"

subsection \<open>The transform operation\<close>

definition fallback_trm :: rat where
  "fallback_trm = 4200"

text \<open>
  The rate of the batch: \<open>trm_value or Decimal('4200.00')\<close> takes the fallback when
  \<open>trm_value\<close> is \<open>None\<close> or is zero (Python truthiness of a number).
\<close>

definition resolve_trm :: "transformer \<Rightarrow> rat option \<Rightarrow> transformer" where
  "resolve_trm self trm_value =
     (case (trm_value, trm_service self) of
        (None, Some fetched) \<Rightarrow>
          self\<lparr>current_trm := Some fetched, trm_calls := trm_calls self + 1\<rparr>
      | _ \<Rightarrow>
          self\<lparr>current_trm :=
                 Some (case trm_value of
                         None \<Rightarrow> fallback_trm
                       | Some v \<Rightarrow> if v \<noteq> 0 then v else fallback_trm)\<rparr>)"

definition transform_data ::
  "pylib \<Rightarrow> string \<Rightarrow> transformer \<Rightarrow> dataframe \<Rightarrow> rat option \<Rightarrow> exn + (dataframe \<times> transformer)"
where
  "transform_data L now self df trm_value =
     (case clean_data L df of
        Inl e \<Rightarrow> Inl e
      | Inr d0 \<Rightarrow>
          (let self' = resolve_trm self trm_value;
               trm = (case current_trm self' of Some v \<Rightarrow> v | None \<Rightarrow> fallback_trm);
               d1 = transform_gender d0;
               d2 = transform_illness d1;
               d3 = transform_age_to_lustros d2;
               d4 = transform_income_to_cop trm d3
           in Inr (add_transformation_metadata now d4, self')))"

definition transform_data_optimized ::
  "pylib \<Rightarrow> string \<Rightarrow> transformer \<Rightarrow> dataframe \<Rightarrow> rat option \<Rightarrow> exn + (dataframe \<times> transformer)"
where
  "transform_data_optimized L now self df trm_value =
     (case clean_data_optimized L df of
        Inl e \<Rightarrow> Inl e
      | Inr d0 \<Rightarrow>
          (let self' = resolve_trm self trm_value;
               trm = (case current_trm self' of Some v \<Rightarrow> v | None \<Rightarrow> fallback_trm);
               d1 = transform_gender_vectorized d0;
               d2 = transform_illness_vectorized d1;
               d3 = transform_age_to_lustros_vectorized d2;
               d4 = transform_income_to_cop_vectorized trm d3
           in Inr (add_transformation_metadata now d4, self')))"

section \<open>Row-wise view of the transformer\<close>

text \<open>
  Every step of the transformer assigns whole columns, so it acts on each row alone.
  The definitions below name that action; the lemmas of the second part prove that
  the column-level functions above compute exactly these.
\<close>

definition text_columns :: "dataframe \<Rightarrow> string list" where
  "text_columns df = filter (\<lambda>c. dtypes df c = ObjectT) (columns df)"

definition strip_cell_at :: "pylib \<Rightarrow> string \<Rightarrow> row \<Rightarrow> row" where
  "strip_cell_at L col r = r(col \<mapsto> Str (strip (astype_str L (cellv r col))))"

definition clean_row :: "pylib \<Rightarrow> dataframe \<Rightarrow> row \<Rightarrow> row" where
  "clean_row L df r =
     (let r1 = fold (strip_cell_at L) (text_columns df) r;
          r2 = (if ''age'' \<in> set (columns df)
                then r1(''age'' \<mapsto> to_numeric L (cellv r1 ''age'')) else r1);
          r3 = (if ''income'' \<in> set (columns df)
                then r2(''income'' \<mapsto> to_numeric L (cellv r2 ''income'')) else r2);
          r4 = (if ''gender'' \<in> set (columns df)
                then r3(''gender'' \<mapsto> str_strip (str_lower (cellv r3 ''gender''))) else r3)
      in if ''illness'' \<in> set (columns df)
         then r4(''illness'' \<mapsto> str_strip (str_lower (cellv r4 ''illness''))) else r4)"

definition norm_text :: "string \<Rightarrow> string" where
  "norm_text s = strip (lower (strip s))"

definition gender_loc :: "cell \<Rightarrow> cell" where
  "gender_loc g = (let m = series_map gender_translation g in if isnull m then g else m)"

definition illness_loc :: "cell \<Rightarrow> cell" where
  "illness_loc i = (let m = series_map illness_translation i in if isnull m then Str ''No'' else m)"

definition gender_row :: "row \<Rightarrow> row" where
  "gender_row r = r(''genero_es'' \<mapsto> gender_loc (cellv r ''gender''))"

definition illness_row :: "row \<Rightarrow> row" where
  "illness_row r = r(''Illness'' \<mapsto> cellv r ''illness'',
                     ''enfermedad_es'' \<mapsto> illness_loc (cellv r ''illness''))"

definition age_row :: "row \<Rightarrow> row" where
  "age_row r = r(''edad_lustros'' \<mapsto> cell_round2 (cell_div (cellv r ''age'') 5))"

definition income_row :: "rat \<Rightarrow> row \<Rightarrow> row" where
  "income_row trm r = r(''ingreso_cop'' \<mapsto> cell_round2 (cell_mul (cellv r ''income'') trm),
                        ''trm_utilizada'' \<mapsto> Num trm)"

definition meta_row :: "string \<Rightarrow> row \<Rightarrow> row" where
  "meta_row now r =
     (r(''fecha_procesamiento'' \<mapsto> Str now, ''illness'' := None,
        ''nombre'' \<mapsto> cellv r ''name'', ''name'' := None,
        ''edad_anos'' \<mapsto> cellv r ''age'', ''ingreso_usd'' \<mapsto> cellv r ''income'',
        ''genero_original'' \<mapsto> cellv r ''gender'',
        ''enfermedad_original'' \<mapsto> cellv r ''Illness'')) |` set desired_order"

definition canon_row :: "string \<Rightarrow> rat \<Rightarrow> row \<Rightarrow> row" where
  "canon_row now trm r = meta_row now (income_row trm (age_row (illness_row (gender_row r))))"

definition transformed_columns :: "string list" where
  "transformed_columns = [''name'', ''age'', ''gender'', ''income'', ''illness'', ''Illness'',
     ''genero_es'', ''enfermedad_es'', ''edad_lustros'', ''ingreso_cop'', ''trm_utilizada'']"

definition survives :: "pylib \<Rightarrow> dataframe \<Rightarrow> row \<Rightarrow> bool" where
  "survives L df raw = complete_row (clean_row L df raw)"

definition batch_rate :: "transformer \<Rightarrow> rat option \<Rightarrow> rat" where
  "batch_rate self v = (case current_trm (resolve_trm self v) of Some x \<Rightarrow> x | None \<Rightarrow> fallback_trm)"

section \<open>Sample inputs\<close>

text \<open>Concrete frames on which the theorems below are instantiated.\<close>

definition sample_lib :: pylib where
  "sample_lib = \<lparr>str_of_num = (\<lambda>x. ''0''),
                  num_of_str = (\<lambda>s. if s = ''25'' then Some 25
                                      else if s = ''1000'' then Some 1000 else None)\<rparr>"

definition sample_dtypes :: "string \<Rightarrow> dtype" where
  "sample_dtypes c = (if c = ''age'' \<or> c = ''income'' then NumericT else ObjectT)"


definition bea :: row where
  "bea = [''name'' \<mapsto> Str ''Bea'', ''age'' \<mapsto> Num 30, ''gender'' \<mapsto> Str ''Other'',
          ''income'' \<mapsto> Num 500, ''illness'' \<mapsto> Str ''Maybe'']"


definition sample_df :: "row list \<Rightarrow> dataframe" where
  "sample_df rs = \<lparr>columns = critical_columns, dtypes = sample_dtypes, rows = rs\<rparr>"


definition sample_transformer :: transformer where
  "sample_transformer = \<lparr>trm_service = Some 4100, current_trm = None, trm_calls = 0\<rparr>"

definition sample_now :: string where
  "sample_now = ''2025-01-01 00:00:00''"

section \<open>The rate service (services/trm\_service.py, services/trm\_service\_optimized.py)\<close>

text \<open>
  A parsed JSON document. \<open>JDict\<close> lists the entries of the parsed dictionary, so its
  keys are distinct. Numbers are exact rationals.
\<close>

datatype json =
    JNull | JBool bool | JNum rat | JStr string | JList "json list"
  | JDict "(string \<times> json) list"

text \<open>
  Functions of the Python standard library whose text formats are not the repository's:
  the \<open>Decimal\<close> constructor on a string, \<open>int\<close> and \<open>float\<close> on a string,
  \<open>datetime.fromisoformat\<close> and \<open>isoformat\<close>, and the date parsers behind
  \<open>datetime_to_mysql_string\<close> and \<open>validate_mysql_datetime\<close>. A point in time is a count of microseconds; a parsed
  datetime is naive or carries a time zone.
\<close>

datatype pydatetime = Naive int | Aware int

record stdlib =
  decimal_of_str :: "string \<Rightarrow> rat option"
  int_of_str :: "string \<Rightarrow> int option"
  float_of_str :: "string \<Rightarrow> rat option"
  fromisoformat :: "string \<Rightarrow> pydatetime option"
  isoformat :: "int \<Rightarrow> string"
  to_mysql :: "string \<Rightarrow> string option"
  is_mysql :: "string \<Rightarrow> bool"





text \<open>\<open>x[key]\<close> with a string key\<close>

fun getitem_key :: "json \<Rightarrow> string \<Rightarrow> exn + json" where
  "getitem_key (JDict kv) k = (case map_of kv k of Some v \<Rightarrow> Inr v | None \<Rightarrow> Inl (KeyError k))"
| "getitem_key _ k = Inl (TypeError ''indices must be integers'')"

text \<open>\<open>Decimal(str(v))\<close>\<close>

fun decimal_of_json :: "stdlib \<Rightarrow> json \<Rightarrow> exn + rat" where
  "decimal_of_json S (JNum x) = Inr x"
| "decimal_of_json S (JStr s) =
     (case decimal_of_str S s of Some x \<Rightarrow> Inr x | None \<Rightarrow> Inl (InvalidOperation s))"
| "decimal_of_json S _ = Inl (InvalidOperation ''ConversionSyntax'')"








section \<open>The rate cache (services/trm\_cache.py)\<close>

text \<open>
  The cache file as the reader finds it: absent, present but failing to open or read,
  present with text that is not JSON, or holding a JSON document.
\<close>

datatype fs_file = NoFile | Unreadable | NotJson | JsonDoc json

record trm_cache =
  cache_file :: fs_file
  cache_duration :: int



definition read_cache_body :: "stdlib \<Rightarrow> int \<Rightarrow> trm_cache \<Rightarrow> exn + rat option" where
  "read_cache_body S now self =
     (case cache_file self of
        NoFile \<Rightarrow> Inr None
      | Unreadable \<Rightarrow> Inl (IOError ''cannot read cache file'')
      | NotJson \<Rightarrow> Inl (ValueError ''invalid json'')
      | JsonDoc cache_data \<Rightarrow>
          (case getitem_key cache_data ''timestamp'' of
             Inl e \<Rightarrow> Inl e
           | Inr (JStr ts) \<Rightarrow>
               (case fromisoformat S ts of
                  None \<Rightarrow> Inl (ValueError ''Invalid isoformat string'')
                | Some (Aware t) \<Rightarrow>
                    Inl (TypeError ''cannot subtract offset-naive and offset-aware datetimes'')
                | Some (Naive cached_time) \<Rightarrow>
                    if now - cached_time < cache_duration self
                    then (case getitem_key cache_data ''trm_value'' of
                            Inl e \<Rightarrow> Inl e
                          | Inr v \<Rightarrow>
                              (case decimal_of_json S v of
                                 Inl e \<Rightarrow> Inl e
                               | Inr trm_value \<Rightarrow> Inr (Some trm_value)))
                    else Inr None)
           | Inr other \<Rightarrow> Inl (TypeError ''fromisoformat: argument must be str'')))"

definition get_cached_trm :: "stdlib \<Rightarrow> int \<Rightarrow> trm_cache \<Rightarrow> exn + rat option" where
  "get_cached_trm S now self =
     (case read_cache_body S now self of Inl e \<Rightarrow> Inr None | Inr r \<Rightarrow> Inr r)"



definition is_cache_valid :: "stdlib \<Rightarrow> int \<Rightarrow> trm_cache \<Rightarrow> bool" where
  "is_cache_valid S now self = (get_cached_trm S now self \<noteq> Inr None)"

subsection \<open>The caching service\<close>

record trm_service_optimized =
  use_cache :: bool
  cache :: "trm_cache option"



definition sample_std :: stdlib where
  "sample_std =
     \<lparr>decimal_of_str = (\<lambda>s. if s = ''4100.50'' then Some (8201 / 2) else None),
      int_of_str = (\<lambda>s. None),
      float_of_str = (\<lambda>s. None),
      fromisoformat = (\<lambda>s. if s = ''2025-01-01T00:00:00'' then Some (Naive 0) else None),
      isoformat = (\<lambda>t. ''2025-01-01T00:00:00''),
      to_mysql = (\<lambda>s. Some s),
      is_mysql = (\<lambda>s. True)\<rparr>"



section \<open>The relational sink (database/connection\_optimized.py)\<close>

text \<open>A row of \<open>personas_transformadas\<close>, which is also a record the loader prepares.\<close>

record db_record =
  nombre :: string
  edad_anos :: int
  edad_lustros :: rat
  genero_original :: string
  genero_es :: string
  ingreso_usd :: rat
  ingreso_cop :: rat
  trm_utilizada :: rat
  enfermedad_original :: string
  enfermedad_es :: string
  fecha_procesamiento :: string

text \<open>
  The connection (autocommit off): the rows committed to the table, the rows written
  by the open transaction, and the number of operations sent so far. A fault oracle says
  which operations raise, by their number; an operation that raises changes no row.
\<close>

record connection =
  committed :: "db_record list"
  pending :: "db_record list"
  ops :: nat

definition db_op :: "(nat \<Rightarrow> bool) \<Rightarrow> connection \<Rightarrow> (exn + unit) \<times> connection" where
  "db_op F s =
     ((if F (ops s) then Inl (DatabaseError ''mysql error'') else Inr ()),
      s\<lparr>ops := ops s + 1\<rparr>)"

definition visible :: "connection \<Rightarrow> db_record list" where
  "visible s = committed s @ pending s"

type_synonym person_key = "string \<times> int \<times> string \<times> rat"

definition key_of :: "db_record \<Rightarrow> person_key" where
  "key_of r = (nombre r, edad_anos r, genero_original r, ingreso_usd r)"

definition count_matching :: "connection \<Rightarrow> person_key \<Rightarrow> nat" where
  "count_matching s k = length (filter (\<lambda>r. key_of r = k) (visible s))"

definition verificar_duplicado ::
  "(nat \<Rightarrow> bool) \<Rightarrow> connection \<Rightarrow> person_key \<Rightarrow> bool \<times> connection" where
  "verificar_duplicado F s k =
     (case db_op F s of
        (Inl e, s1) \<Rightarrow> (False, s1)
      | (Inr u, s1) \<Rightarrow>
          (case db_op F s1 of
             (Inl e, s2) \<Rightarrow> (False, s2)
           | (Inr u, s2) \<Rightarrow> (0 < count_matching s2 k, s2)))"

text \<open>The inner loop over one batch: the rows to insert, the duplicates counted.\<close>

fun prepare_batch ::
  "(nat \<Rightarrow> bool) \<Rightarrow> connection \<Rightarrow> db_record list \<Rightarrow> db_record list \<times> nat \<times> connection" where
  "prepare_batch F s [] = ([], 0, s)"
| "prepare_batch F s (r # rs) =
     (case verificar_duplicado F s (key_of r) of
        (dup, s1) \<Rightarrow>
          (case prepare_batch F s1 rs of
             (batch_data, duplicados, s2) \<Rightarrow>
               if dup then (batch_data, duplicados + 1, s2)
               else (r # batch_data, duplicados, s2)))"

definition executemany ::
  "(nat \<Rightarrow> bool) \<Rightarrow> connection \<Rightarrow> db_record list \<Rightarrow> (exn + nat) \<times> connection" where
  "executemany F s batch_data =
     (case db_op F s of
        (Inl e, s1) \<Rightarrow> (Inl e, s1)
      | (Inr u, s1) \<Rightarrow> (Inr (length batch_data), s1\<lparr>pending := pending s1 @ batch_data\<rparr>))"

definition commit :: "(nat \<Rightarrow> bool) \<Rightarrow> connection \<Rightarrow> (exn + unit) \<times> connection" where
  "commit F s =
     (case db_op F s of
        (Inl e, s1) \<Rightarrow> (Inl e, s1)
      | (Inr u, s1) \<Rightarrow> (Inr (), s1\<lparr>committed := committed s1 @ pending s1, pending := []\<rparr>))"

definition rollback :: "(nat \<Rightarrow> bool) \<Rightarrow> connection \<Rightarrow> (exn + unit) \<times> connection" where
  "rollback F s =
     (case db_op F s of
        (Inl e, s1) \<Rightarrow> (Inl e, s1)
      | (Inr u, s1) \<Rightarrow> (Inr (), s1\<lparr>pending := []\<rparr>))"

text \<open>\<open>records_data[i:i + batch_size]\<close> for \<open>i\<close> in \<open>range(0, len(records_data), batch_size)\<close>\<close>

function chunks :: "nat \<Rightarrow> 'a list \<Rightarrow> 'a list list" where
  "chunks n xs = (if n = 0 \<or> xs = [] then [] else take n xs # chunks n (drop n xs))"
  by pat_completeness auto

termination
  by (relation "measure (\<lambda>(n, xs). length xs)") auto

fun run_batches ::
  "(nat \<Rightarrow> bool) \<Rightarrow> connection \<Rightarrow> db_record list list \<Rightarrow> nat \<Rightarrow> (exn + nat) \<times> connection" where
  "run_batches F s [] registros_insertados = (Inr registros_insertados, s)"
| "run_batches F s (batch # rest) registros_insertados =
     (case prepare_batch F s batch of
        (batch_data, duplicados, s1) \<Rightarrow>
          if batch_data = [] then run_batches F s1 rest registros_insertados
          else (case executemany F s1 batch_data of
                  (Inl e, s2) \<Rightarrow> (Inl e, s2)
                | (Inr rowcount, s2) \<Rightarrow>
                    run_batches F s2 rest (registros_insertados + rowcount)))"

definition bulk_body ::
  "(nat \<Rightarrow> bool) \<Rightarrow> nat \<Rightarrow> connection \<Rightarrow> db_record list \<Rightarrow> (exn + nat) \<times> connection" where
  "bulk_body F batch_size s records_data =
     (if records_data = [] then (Inr 0, s)
      else (case db_op F s of
              (Inl e, s1) \<Rightarrow> (Inl e, s1)
            | (Inr u, s1) \<Rightarrow>
                if batch_size = 0
                then (Inl (ValueError ''range() arg 3 must not be zero''), s1)
                else (case run_batches F s1 (chunks batch_size records_data) 0 of
                        (Inl e, s2) \<Rightarrow> (Inl e, s2)
                      | (Inr n, s2) \<Rightarrow>
                          (case commit F s2 of
                             (Inl e, s3) \<Rightarrow> (Inl e, s3)
                           | (Inr u, s3) \<Rightarrow> (Inr n, s3)))))"

text \<open>The \<open>except\<close> clause rolls back and raises again.\<close>

definition insertar_personas_transformadas_bulk ::
  "(nat \<Rightarrow> bool) \<Rightarrow> nat \<Rightarrow> connection \<Rightarrow> db_record list \<Rightarrow> (exn + nat) \<times> connection" where
  "insertar_personas_transformadas_bulk F batch_size s records_data =
     (case bulk_body F batch_size s records_data of
        (Inr n, s1) \<Rightarrow> (Inr n, s1)
      | (Inl e, s1) \<Rightarrow>
          (case rollback F s1 of
             (Inl e', s2) \<Rightarrow> (Inl e', s2)
           | (Inr u, s2) \<Rightarrow> (Inl e, s2)))"

definition insertar_personas_transformadas ::
  "(nat \<Rightarrow> bool) \<Rightarrow> connection \<Rightarrow> db_record list \<Rightarrow> (exn + nat) \<times> connection" where
  "insertar_personas_transformadas F s records_data =
     insertar_personas_transformadas_bulk F 1000 s records_data"

section \<open>The loader (etl/loader.py)\<close>

subsection \<open>Preparing the records for the database\<close>

text \<open>\<open>int(x) if pd.notna(x) else 0\<close> and \<open>float(x) if pd.notna(x) else 0.0\<close>\<close>

fun int_cell :: "stdlib \<Rightarrow> cell \<Rightarrow> exn + int" where
  "int_cell S (Num x) = Inr (if 0 \<le> x then \<lfloor>x\<rfloor> else \<lceil>x\<rceil>)"
| "int_cell S (Str s) = (case int_of_str S s of Some i \<Rightarrow> Inr i | None \<Rightarrow> Inl (ValueError s))"
| "int_cell S NaN = Inr 0"
| "int_cell S PyNone = Inr 0"

fun float_cell :: "stdlib \<Rightarrow> cell \<Rightarrow> exn + rat" where
  "float_cell S (Num x) = Inr x"
| "float_cell S (Str s) = (case float_of_str S s of Some x \<Rightarrow> Inr x | None \<Rightarrow> Inl (ValueError s))"
| "float_cell S NaN = Inr 0"
| "float_cell S PyNone = Inr 0"

text \<open>
  \<open>if a in row: ... elif b in row: ... else: ...\<close>: the cell under the first of two
  column names that the frame has.
\<close>

definition pick :: "dataframe \<Rightarrow> row \<Rightarrow> string \<Rightarrow> string \<Rightarrow> cell option" where
  "pick df r a b =
     (if a \<in> set (columns df) then Some (cellv r a)
      else if b \<in> set (columns df) then Some (cellv r b) else None)"

definition pick_str :: "pylib \<Rightarrow> dataframe \<Rightarrow> row \<Rightarrow> string \<Rightarrow> string \<Rightarrow> string" where
  "pick_str L df r a b = (case pick df r a b of Some c \<Rightarrow> astype_str L c | None \<Rightarrow> [])"

definition pick_int :: "stdlib \<Rightarrow> dataframe \<Rightarrow> row \<Rightarrow> string \<Rightarrow> string \<Rightarrow> exn + int" where
  "pick_int S df r a b = (case pick df r a b of Some c \<Rightarrow> int_cell S c | None \<Rightarrow> Inr 0)"

definition pick_float :: "stdlib \<Rightarrow> dataframe \<Rightarrow> row \<Rightarrow> string \<Rightarrow> string \<Rightarrow> exn + rat" where
  "pick_float S df r a b = (case pick df r a b of Some c \<Rightarrow> float_cell S c | None \<Rightarrow> Inr 0)"

text \<open>
  \<open>ensure_mysql_datetime_format\<close>: a string that none of the parsers reads, and a value
  that is no string, give the current time; it never raises.
\<close>

fun ensure_mysql_datetime_format :: "stdlib \<Rightarrow> string \<Rightarrow> cell \<Rightarrow> string" where
  "ensure_mysql_datetime_format S now (Str s) = (case to_mysql S s of Some m \<Rightarrow> m | None \<Rightarrow> now)"
| "ensure_mysql_datetime_format S now _ = now"

definition fecha_of :: "stdlib \<Rightarrow> string \<Rightarrow> dataframe \<Rightarrow> row \<Rightarrow> string" where
  "fecha_of S now df r =
     (case pick df r ''Processing Date'' ''fecha_procesamiento'' of
        Some c \<Rightarrow>
          (let converted = Str (ensure_mysql_datetime_format S now c);
               mysql_date = ensure_mysql_datetime_format S now converted
           in if is_mysql S mysql_date then mysql_date else now)
      | None \<Rightarrow> now)"

definition prepare_record ::
  "pylib \<Rightarrow> stdlib \<Rightarrow> string \<Rightarrow> dataframe \<Rightarrow> row \<Rightarrow> exn + db_record" where
  "prepare_record L S now df r =
     (case pick_int S df r ''age'' ''edad_anos'' of
        Inl e \<Rightarrow> Inl e
      | Inr edad \<Rightarrow>
      (case pick_float S df r ''Age Lustrum'' ''edad_lustros'' of
        Inl e \<Rightarrow> Inl e
      | Inr lustros \<Rightarrow>
      (case pick_float S df r ''income'' ''ingreso_usd'' of
        Inl e \<Rightarrow> Inl e
      | Inr usd \<Rightarrow>
      (case pick_float S df r ''Income Cop'' ''ingreso_cop'' of
        Inl e \<Rightarrow> Inl e
      | Inr cop \<Rightarrow>
      (case pick_float S df r ''Trm'' ''trm_utilizada'' of
        Inl e \<Rightarrow> Inl e
      | Inr trm \<Rightarrow>
          Inr \<lparr>nombre = pick_str L df r ''Name'' ''nombre'',
               edad_anos = edad,
               edad_lustros = lustros,
               genero_original = pick_str L df r ''Gender'' ''gender'',
               genero_es = pick_str L df r ''Gender Es'' ''genero_es'',
               ingreso_usd = usd,
               ingreso_cop = cop,
               trm_utilizada = trm,
               enfermedad_original = pick_str L df r ''Illness'' ''enfermedad_original'',
               enfermedad_es = pick_str L df r ''Illness Es'' ''enfermedad_es'',
               fecha_procesamiento = fecha_of S now df r\<rparr>)))))"

fun prepare_rows ::
  "pylib \<Rightarrow> stdlib \<Rightarrow> string \<Rightarrow> dataframe \<Rightarrow> row list \<Rightarrow> exn + db_record list" where
  "prepare_rows L S now df [] = Inr []"
| "prepare_rows L S now df (r # rs) =
     (case prepare_record L S now df r of
        Inl e \<Rightarrow> Inl e
      | Inr x \<Rightarrow>
          (case prepare_rows L S now df rs of
             Inl e \<Rightarrow> Inl e
           | Inr xs \<Rightarrow> Inr (x # xs)))"

definition prepare_dataframe_for_database ::
  "pylib \<Rightarrow> stdlib \<Rightarrow> string \<Rightarrow> dataframe \<Rightarrow> exn + db_record list" where
  "prepare_dataframe_for_database L S now df = prepare_rows L S now df (rows df)"

definition load_to_database ::
  "pylib \<Rightarrow> stdlib \<Rightarrow> string \<Rightarrow> (nat \<Rightarrow> bool) \<Rightarrow> connection \<Rightarrow> dataframe
     \<Rightarrow> (exn + nat) \<times> connection" where
  "load_to_database L S now F db_manager df =
     (case prepare_dataframe_for_database L S now df of
        Inl e \<Rightarrow> (Inl e, db_manager)
      | Inr records_data \<Rightarrow> insertar_personas_transformadas F db_manager records_data)"

subsection \<open>File names\<close>

text \<open>The wall clock as \<open>datetime.now()\<close> reads it.\<close>

record pytime =
  year :: nat
  month :: nat
  day :: nat
  hour :: nat
  minute :: nat
  second :: nat
  microsecond :: nat

definition digit :: "nat \<Rightarrow> char" where
  "digit n = char_of (48 + n mod 10)"

definition pad2 :: "nat \<Rightarrow> string" where
  "pad2 n = [digit (n div 10), digit n]"

definition pad4 :: "nat \<Rightarrow> string" where
  "pad4 n = [digit (n div 1000), digit (n div 100), digit (n div 10), digit n]"

text \<open>\<open>TIMESTAMP_FORMAT = '%Y%m%d_%H%M%S'\<close>\<close>

definition get_timestamp_for_filename :: "pytime \<Rightarrow> string" where
  "get_timestamp_for_filename t =
     pad4 (year t) @ pad2 (month t) @ pad2 (day t) @ ''_'' @
     pad2 (hour t) @ pad2 (minute t) @ pad2 (second t)"

datatype sink = JsonSink | ParquetSink | CsvSink | SqlSink | SummarySink

fun file_path :: "string \<Rightarrow> sink \<Rightarrow> pytime \<Rightarrow> string" where
  "file_path output_dir JsonSink t =
     output_dir @ ''/transformed_data_'' @ get_timestamp_for_filename t @ ''.json''"
| "file_path output_dir ParquetSink t =
     output_dir @ ''/transformed_data_'' @ get_timestamp_for_filename t @ ''.parquet''"
| "file_path output_dir CsvSink t =
     output_dir @ ''/transformed_data_'' @ get_timestamp_for_filename t @ ''.csv''"
| "file_path output_dir SqlSink t =
     output_dir @ ''/insert_script_'' @ get_timestamp_for_filename t @ ''.sql''"
| "file_path output_dir SummarySink t =
     output_dir @ ''/data_summary_'' @ get_timestamp_for_filename t @ ''.json''"

subsection \<open>The five file writers\<close>

text \<open>
  The surroundings of one load call: for each file writer the exception of its write, if
  the write fails, and the clock reading from which it names its file. The file system
  is the list of paths that exist.
\<close>

record load_env =
  output_dir :: string
  write_error :: "sink \<Rightarrow> exn option"
  time_at :: "sink \<Rightarrow> pytime"

definition write_file :: "load_env \<Rightarrow> sink \<Rightarrow> string list \<Rightarrow> (exn + string) \<times> string list" where
  "write_file env k fs =
     (case write_error env k of
        Some e \<Rightarrow> (Inl e, fs)
      | None \<Rightarrow>
          (let p = file_path (output_dir env) k (time_at env k)
           in (Inr p, if p \<in> set fs then fs else fs @ [p])))"

text \<open>
  \<open>create_data_summary\<close> computes \<open>int(df['edad_anos'].min())\<close>, which raises when the
  column has no number in it, as on a frame without rows.
\<close>

definition summary_fails :: "dataframe \<Rightarrow> bool" where
  "summary_fails df =
     (''edad_anos'' \<in> set (columns df) \<and> list_all (\<lambda>r. isnull (cellv r ''edad_anos'')) (rows df))"

text \<open>
  One writer: \<open>save_to_json\<close>, \<open>save_to_parquet\<close>, \<open>save_to_csv\<close>,
  \<open>generate_sql_insert_script\<close> (which prepares the records first) and
  \<open>create_data_summary\<close>.
\<close>

fun save_sink ::
  "pylib \<Rightarrow> stdlib \<Rightarrow> string \<Rightarrow> load_env \<Rightarrow> dataframe \<Rightarrow> sink \<Rightarrow> string list
     \<Rightarrow> (exn + string) \<times> string list" where
  "save_sink L S now env df SqlSink fs =
     (case prepare_dataframe_for_database L S now df of
        Inl e \<Rightarrow> (Inl e, fs)
      | Inr records_data \<Rightarrow> write_file env SqlSink fs)"
| "save_sink L S now env df SummarySink fs =
     (if summary_fails df then (Inl (ValueError ''cannot convert float NaN to integer''), fs)
      else write_file env SummarySink fs)"
| "save_sink L S now env df k fs = write_file env k fs"

subsection \<open>load\_otaku\_data\<close>

record load_result =
  json_file :: "string option"
  parquet_file :: "string option"
  csv_file :: "string option"
  sql_script :: "string option"
  summary_file :: "string option"
  database_records :: nat
  cloud_url :: "string option"
  errors :: "string list"

fun set_file :: "sink \<Rightarrow> string \<Rightarrow> load_result \<Rightarrow> load_result" where
  "set_file JsonSink p res = res\<lparr>json_file := Some p\<rparr>"
| "set_file ParquetSink p res = res\<lparr>parquet_file := Some p\<rparr>"
| "set_file CsvSink p res = res\<lparr>csv_file := Some p\<rparr>"
| "set_file SqlSink p res = res\<lparr>sql_script := Some p\<rparr>"
| "set_file SummarySink p res = res\<lparr>summary_file := Some p\<rparr>"

fun file_of :: "sink \<Rightarrow> load_result \<Rightarrow> string option" where
  "file_of JsonSink res = json_file res"
| "file_of ParquetSink res = parquet_file res"
| "file_of CsvSink res = csv_file res"
| "file_of SqlSink res = sql_script res"
| "file_of SummarySink res = summary_file res"

fun error_prefix :: "sink \<Rightarrow> string" where
  "error_prefix JsonSink = ''Error guardando JSON: ''"
| "error_prefix ParquetSink = ''Error guardando Parquet: ''"
| "error_prefix CsvSink = ''Error guardando CSV: ''"
| "error_prefix SqlSink = ''Error generando script SQL: ''"
| "error_prefix SummarySink = ''Error creando resumen: ''"

text \<open>One \<open>try\<close> block around one writer.\<close>

definition try_sink ::
  "pylib \<Rightarrow> stdlib \<Rightarrow> string \<Rightarrow> load_env \<Rightarrow> dataframe \<Rightarrow> sink
     \<Rightarrow> load_result \<times> string list \<Rightarrow> load_result \<times> string list" where
  "try_sink L S now env df k st =
     (case save_sink L S now env df k (snd st) of
        (Inr p, fs') \<Rightarrow> (set_file k p (fst st), fs')
      | (Inl e, fs') \<Rightarrow> ((fst st)\<lparr>errors := errors (fst st) @ [error_prefix k @ exn_text e]\<rparr>, fs'))"

definition empty_result :: load_result where
  "empty_result =
     \<lparr>json_file = None, parquet_file = None, csv_file = None, sql_script = None,
      summary_file = None, database_records = 0, cloud_url = None, errors = []\<rparr>"

text \<open>The database block: its exception is turned into an entry of \<open>errors\<close>.\<close>

definition db_step ::
  "pylib \<Rightarrow> stdlib \<Rightarrow> string \<Rightarrow> (nat \<Rightarrow> bool) \<Rightarrow> dataframe \<Rightarrow> connection option
     \<Rightarrow> load_result \<Rightarrow> load_result \<times> connection option" where
  "db_step L S now F df db_manager res =
     (case db_manager of
        None \<Rightarrow> (res, None)
      | Some conn \<Rightarrow>
          (case load_to_database L S now F conn df of
             (Inr n, conn') \<Rightarrow> (res\<lparr>database_records := n\<rparr>, Some conn')
           | (Inl e, conn') \<Rightarrow>
               (res\<lparr>errors := errors res @ [''Error cargando a base de datos: '' @ exn_text e]\<rparr>,
                Some conn')))"

text \<open>
  The cloud block. The cloud service, when one is given, is its answer to the upload:
  a URL or an exception.
\<close>

definition cloud_step :: "(exn + string) option \<Rightarrow> load_result \<Rightarrow> load_result" where
  "cloud_step cloud_service res =
     (case (cloud_service, json_file res) of
        (Some (Inr url), Some p) \<Rightarrow> res\<lparr>cloud_url := Some url\<rparr>
      | (Some (Inl e), Some p) \<Rightarrow>
          res\<lparr>errors := errors res @ [''Error subiendo a la nube: '' @ exn_text e]\<rparr>
      | _ \<Rightarrow> res)"

definition load_otaku_data ::
  "pylib \<Rightarrow> stdlib \<Rightarrow> string \<Rightarrow> load_env \<Rightarrow> (nat \<Rightarrow> bool) \<Rightarrow> dataframe
     \<Rightarrow> connection option \<Rightarrow> (exn + string) option \<Rightarrow> string list
     \<Rightarrow> load_result \<times> string list \<times> connection option" where
  "load_otaku_data L S now env F df db_manager cloud_service fs =
     (let st1 = try_sink L S now env df JsonSink (empty_result, fs);
          st2 = try_sink L S now env df ParquetSink st1;
          st3 = try_sink L S now env df CsvSink st2;
          st4 = try_sink L S now env df SqlSink st3;
          st5 = try_sink L S now env df SummarySink st4;
          r6 = db_step L S now F df db_manager (fst st5)
      in (cloud_step cloud_service (fst r6), snd st5, snd r6))"

section \<open>The HTTP pipeline (api/server.py, run\_etl\_pipeline)\<close>






definition rec_ana :: db_record where
  "rec_ana =
     \<lparr>nombre = ''Ana'', edad_anos = 25, edad_lustros = 5, genero_original = [],
      genero_es = ''Femenino'', ingreso_usd = 1000, ingreso_cop = 4000000,
      trm_utilizada = 4000, enfermedad_original = ''no'', enfermedad_es = ''No'',
      fecha_procesamiento = ''2025-01-01 00:00:00''\<rparr>"

definition conn_with_ana :: connection where
  "conn_with_ana = \<lparr>committed = [rec_ana], pending = [], ops = 0\<rparr>"

definition all_sinks :: "sink list" where
  "all_sinks = [JsonSink, ParquetSink, CsvSink, SqlSink, SummarySink]"

definition valid_time :: "pytime \<Rightarrow> bool" where
  "valid_time t =
     (year t < 10000 \<and> month t < 100 \<and> day t < 100 \<and> hour t < 100 \<and> minute t < 100
      \<and> second t < 100)"

definition same_second :: "pytime \<Rightarrow> pytime \<Rightarrow> bool" where
  "same_second a b =
     (year a = year b \<and> month a = month b \<and> day a = day b \<and> hour a = hour b \<and>
      minute a = minute b \<and> second a = second b)"

definition ana_out :: row where
  "ana_out =
     [''nombre'' \<mapsto> Str ''Ana'', ''edad_anos'' \<mapsto> Num 25, ''edad_lustros'' \<mapsto> Num 5,
      ''genero_original'' \<mapsto> Str ''female'', ''genero_es'' \<mapsto> Str ''Femenino'',
      ''ingreso_usd'' \<mapsto> Num 1000, ''ingreso_cop'' \<mapsto> Num 4000000,
      ''trm_utilizada'' \<mapsto> Num 4000, ''enfermedad_original'' \<mapsto> Str ''no'',
      ''enfermedad_es'' \<mapsto> Str ''No'', ''fecha_procesamiento'' \<mapsto> Str ''2025-01-01 00:00:00'']"

definition out_df :: dataframe where
  "out_df = \<lparr>columns = desired_order, dtypes = (\<lambda>c. ObjectT), rows = [ana_out]\<rparr>"

definition noon :: pytime where
  "noon = \<lparr>year = 2025, month = 1, day = 1, hour = 12, minute = 0, second = 0, microsecond = 0\<rparr>"

definition env_at :: "pytime \<Rightarrow> load_env" where
  "env_at t = \<lparr>output_dir = ''data/output'', write_error = (\<lambda>k. None), time_at = (\<lambda>k. t)\<rparr>"

definition empty_conn :: connection where
  "empty_conn = \<lparr>committed = [], pending = [], ops = 0\<rparr>"

definition first_run :: "load_result \<times> string list \<times> connection option" where
  "first_run =
     load_otaku_data sample_lib sample_std sample_now (env_at noon) (\<lambda>n. False) out_df
       (Some empty_conn) None []"

definition second_run :: "load_result \<times> string list \<times> connection option" where
  "second_run =
     load_otaku_data sample_lib sample_std sample_now (env_at (noon\<lparr>microsecond := 500000\<rparr>))
       (\<lambda>n. False) out_df (snd (snd first_run)) None (fst (snd first_run))"

definition env_fail :: load_env where
  "env_fail =
     \<lparr>output_dir = ''data/output'',
      write_error = (\<lambda>k. if k = ParquetSink then Some (IOError ''disk full'') else None),
      time_at = (\<lambda>k. noon)\<rparr>"

definition failing_run :: "load_result \<times> string list \<times> connection option" where
  "failing_run =
     load_otaku_data sample_lib sample_std sample_now env_fail (\<lambda>n. n = 3) out_df
       (Some empty_conn) None []"

section \<open>Lemmas about strings and frames\<close>

lemma of_char_lower: "is_space (lower_char c) = is_space c"
proof -
  let ?n = "of_char c :: nat"
  have "of_char (char_of (?n + 32)) = (?n + 32) mod 256" by (simp only: of_char_of)
  then have "?n + 32 < 256 \<Longrightarrow> (of_char (char_of (?n + 32)) :: nat) = ?n + 32" by simp
  then show ?thesis
    unfolding is_space_def lower_char_def Let_def by auto
qed

lemma strip_lower: "strip (lower s) = lower (strip s)"
  unfolding strip_def lower_def
  by (simp add: dropWhile_map rev_map comp_def of_char_lower)

lemma dropWhile_rev_dropWhile:
  "dropWhile P (rev (dropWhile P (rev (dropWhile P s)))) = rev (dropWhile P (rev (dropWhile P s)))"
proof -
  let ?t = "dropWhile P s"
  let ?u = "dropWhile P (rev ?t)"
  show ?thesis
  proof (cases "?u = []")
    case True then show ?thesis by (simp only: rev.simps dropWhile.simps)
  next
    case False
    have "rev ?t \<noteq> []"
    proof
      assume "rev ?t = []"
      then have "?u = []" by (simp only: dropWhile.simps)
      with False show False by blast
    qed
    then have tne: "?t \<noteq> []" by simp
    then have h: "\<not> P (hd ?t)" by (metis hd_dropWhile)
    obtain k where k: "?u = drop k (rev ?t)" by (metis dropWhile_eq_drop)
    have "last ?u = last (rev ?t)" using False k by (metis drop_eq_Nil last_drop not_le)
    then have "last ?u = hd ?t" using tne by (simp add: last_rev)
    then have "\<not> P (hd (rev ?u))" using h False by (simp add: hd_rev)
    then show ?thesis using False by (metis dropWhile_eq_self_iff)  
  qed
qed

lemma strip_idem: "strip (strip s) = strip s"
proof -
  have "dropWhile is_space (dropWhile is_space (rev (dropWhile is_space s))) = dropWhile is_space (rev (dropWhile is_space s))"
    by (simp add: dropWhile_idem)
  then show ?thesis unfolding strip_def by (simp add: dropWhile_rev_dropWhile)
qed

lemma rows_assign: "rows (assign c t f d) = map (\<lambda>r. r(c \<mapsto> f r)) (rows d)"
  by (simp add: assign_def)

lemma columns_assign: "set (columns (assign c t f d)) = insert c (set (columns d))"
  by (auto simp: assign_def)

lemma columns_assign_mem: "c \<in> set (columns d) \<Longrightarrow> columns (assign c t f d) = columns d"
  by (simp add: assign_def)

lemma dtypes_assign: "dtypes (assign c t f d) = (dtypes d)(c := t)"
  by (simp add: assign_def)

lemma fold_assign_strip:
  "set cs \<subseteq> set (columns d) \<Longrightarrow> \<forall>c\<in>set cs. dtypes d c = ObjectT \<Longrightarrow>
   rows (fold (\<lambda>col d. assign col ObjectT (\<lambda>r. Str (strip (astype_str L (cellv r col)))) d) cs d)
     = map (fold (strip_cell_at L) cs) (rows d)
   \<and> columns (fold (\<lambda>col d. assign col ObjectT (\<lambda>r. Str (strip (astype_str L (cellv r col)))) d) cs d)
     = columns d
   \<and> dtypes (fold (\<lambda>col d. assign col ObjectT (\<lambda>r. Str (strip (astype_str L (cellv r col)))) d) cs d)
     = dtypes d"
proof (induction cs arbitrary: d)
  case Nil
  then show ?case by simp
next
  case (Cons c cs)
  let ?d = "assign c ObjectT (\<lambda>r. Str (strip (astype_str L (cellv r c)))) d"
  have c: "columns ?d = columns d" using Cons.prems by (simp add: columns_assign_mem)
  have t: "dtypes ?d = dtypes d" using Cons.prems by (auto simp: dtypes_assign)
  have r: "rows ?d = map (strip_cell_at L c) (rows d)"
    by (simp add: rows_assign strip_cell_at_def)
  have "set cs \<subseteq> set (columns ?d)" "\<forall>c\<in>set cs. dtypes ?d c = ObjectT"
    using Cons.prems c t by auto
  from Cons.IH[OF this] show ?case by (simp add: c t r comp_def)
qed

lemma strip_text_columns_eq:
  "rows (strip_text_columns L df) = map (fold (strip_cell_at L) (text_columns df)) (rows df)
   \<and> columns (strip_text_columns L df) = columns df
   \<and> dtypes (strip_text_columns L df) = dtypes df"
  unfolding strip_text_columns_def text_columns_def
  by (rule fold_assign_strip) auto

lemma numeric_column_columns: "columns (numeric_column L c d) = columns d"
  by (simp add: numeric_column_def columns_assign_mem)

lemma numeric_column_rows:
  "rows (numeric_column L c d) =
     map (\<lambda>r. if c \<in> set (columns d) then r(c \<mapsto> to_numeric L (cellv r c)) else r) (rows d)"
  by (simp add: numeric_column_def rows_assign)

lemma numeric_column_dtypes:
  "k \<noteq> c \<Longrightarrow> dtypes (numeric_column L c d) k = dtypes d k"
  by (simp add: numeric_column_def dtypes_assign)

lemma normalize_text_Inr:
  "normalize_text c d = Inr d' \<Longrightarrow>
     columns d' = columns d \<and> 
     (c \<in> set (columns d) \<longrightarrow> dtypes d c = ObjectT) \<and>
     rows d' = map (\<lambda>r. if c \<in> set (columns d) then r(c \<mapsto> str_strip (str_lower (cellv r c))) else r) (rows d)
     \<and> (\<forall>k. k \<noteq> c \<longrightarrow> dtypes d' k = dtypes d k)"
  by (auto simp: normalize_text_def rows_assign columns_assign_mem dtypes_assign split: if_splits)

lemma dropna_Inr:
  "dropna d = Inr d' \<Longrightarrow>
     columns d' = columns d \<and> set critical_columns \<subseteq> set (columns d)
     \<and> rows d' = filter complete_row (rows d)"
  by (auto simp: dropna_def filter_empty_conv split: list.splits)

lemma clean_data_rows:
  assumes "clean_data L df = Inr c"
  shows "rows c = filter complete_row (map (clean_row L df) (rows df))"
    and "columns c = columns df"
    and "set critical_columns \<subseteq> set (columns df)"
    and "dtypes df ''gender'' = ObjectT"
    and "dtypes df ''illness'' = ObjectT"
proof -
  let ?d1 = "strip_text_columns L df"
  let ?d2 = "numeric_column L ''age'' ?d1"
  let ?d3 = "numeric_column L ''income'' ?d2"
  from assms obtain d4 d5 where
    g: "normalize_text ''gender'' ?d3 = Inr d4" and
    i: "normalize_text ''illness'' d4 = Inr d5" and
    n: "dropna d5 = Inr c"
    by (auto simp: clean_data_def Let_def split: sum.splits)
  note s = strip_text_columns_eq[of L df]
  note G = normalize_text_Inr[OF g]
  note I = normalize_text_Inr[OF i]
  note N = dropna_Inr[OF n]
  have c3: "columns ?d3 = columns df" by (simp add: numeric_column_columns s)
  have c5: "columns d5 = columns df" using G I c3 by simp
  show "columns c = columns df" using N c5 by simp
  show crit: "set critical_columns \<subseteq> set (columns df)" using N c5 by simp
  have gm: "''gender'' \<in> set (columns df)" and im: "''illness'' \<in> set (columns df)"
    using crit by (auto simp: critical_columns_def)
  have "dtypes ?d3 ''gender'' = ObjectT" using G gm c3 by simp
  then show "dtypes df ''gender'' = ObjectT" by (simp add: numeric_column_dtypes s)
  have "dtypes d4 ''illness'' = ObjectT" using I im G c3 by simp
  then have "dtypes ?d3 ''illness'' = ObjectT" using G by simp
  then show "dtypes df ''illness'' = ObjectT" by (simp add: numeric_column_dtypes s)
  have "rows d5 = map (clean_row L df) (rows df)"
    using G I c3 by (simp add: numeric_column_rows numeric_column_columns s clean_row_def Let_def comp_def)
  then show "rows c = filter complete_row (map (clean_row L df) (rows df))" using N by simp
qed

lemma cellv_upd_same: "cellv (r(k \<mapsto> v)) k = v" by (simp add: cellv_def)

lemma cellv_upd_other: "k \<noteq> c \<Longrightarrow> cellv (r(c \<mapsto> v)) k = cellv r k" by (simp add: cellv_def)

lemma fold_strip_at:
  "cellv (fold (strip_cell_at L) cs r) k =
     (if k \<in> set cs then Str (strip (astype_str L (cellv r k))) else cellv r k)"
proof (induction cs arbitrary: r)
  case Nil
  then show ?case by simp
next
  case (Cons c cs)
  have step: "cellv (fold (strip_cell_at L) (c # cs) r) k =
      (if k \<in> set cs then Str (strip (astype_str L (cellv (strip_cell_at L c r) k)))
       else cellv (strip_cell_at L c r) k)"
    using Cons.IH[of "strip_cell_at L c r"] by simp
  show ?case
  proof (cases "k = c")
    case True
    have "cellv (strip_cell_at L c r) c = Str (strip (astype_str L (cellv r c)))"
      by (simp add: strip_cell_at_def cellv_upd_same)
    then show ?thesis using True step by (simp add: strip_idem)
  next
    case False
    then have "cellv (strip_cell_at L c r) k = cellv r k"
      by (simp add: strip_cell_at_def cellv_upd_other)
    then show ?thesis using False step by simp
  qed
qed

lemma norm_text_eq: "norm_text s = lower (strip s)"
  by (simp add: norm_text_def strip_lower strip_idem)

lemma clean_row_gender:
  assumes "''gender'' \<in> set (columns df)" "dtypes df ''gender'' = ObjectT"
  shows "cellv (clean_row L df r) ''gender'' = Str (norm_text (astype_str L (cellv r ''gender'')))"
proof -
  have "''gender'' \<in> set (text_columns df)" using assms by (simp add: text_columns_def)
  then show ?thesis
    by (simp add: clean_row_def Let_def cellv_upd_same cellv_upd_other fold_strip_at norm_text_def assms)
qed

lemma clean_row_illness:
  assumes "''illness'' \<in> set (columns df)" "dtypes df ''illness'' = ObjectT"
  shows "cellv (clean_row L df r) ''illness'' = Str (norm_text (astype_str L (cellv r ''illness'')))"
proof -
  have "''illness'' \<in> set (text_columns df)" using assms by (simp add: text_columns_def)
  then show ?thesis
    by (simp add: clean_row_def Let_def cellv_upd_same cellv_upd_other fold_strip_at norm_text_def assms)
qed


lemma clean_row_age:
  assumes "''age'' \<in> set (columns df)"
  shows "cellv (clean_row L df r) ''age'' =
           to_numeric L (if dtypes df ''age'' = ObjectT
                         then Str (strip (astype_str L (cellv r ''age''))) else cellv r ''age'')"
  using assms
  by (simp add: clean_row_def Let_def cellv_upd_same cellv_upd_other fold_strip_at text_columns_def)

lemma clean_row_income:
  assumes "''income'' \<in> set (columns df)"
  shows "cellv (clean_row L df r) ''income'' =
           to_numeric L (if dtypes df ''income'' = ObjectT
                         then Str (strip (astype_str L (cellv r ''income''))) else cellv r ''income'')"
  using assms
  by (simp add: clean_row_def Let_def cellv_upd_same cellv_upd_other fold_strip_at text_columns_def)

lemma clean_row_name:
  "cellv (clean_row L df r) ''name'' =
           (if ''name'' \<in> set (columns df) \<and> dtypes df ''name'' = ObjectT
                         then Str (strip (astype_str L (cellv r ''name''))) else cellv r ''name'')"
  by (simp add: clean_row_def Let_def cellv_upd_same cellv_upd_other fold_strip_at text_columns_def)

lemma any_null_iff: "any_null c d = (\<exists>r\<in>set (rows d). isnull (cellv r c))"
  by (simp add: any_null_def list_ex_iff)

lemma transform_gender_rows: "rows (transform_gender d) = map gender_row (rows d)"
proof -
  let ?d1 = "assign ''genero_es'' ObjectT (\<lambda>r. series_map gender_translation (cellv r ''gender'')) d"
  show ?thesis
  proof (cases "any_null ''genero_es'' ?d1")
    case True
    then show ?thesis
      by (simp add: transform_gender_def Let_def fill_from_def rows_assign gender_row_def
            gender_loc_def cellv_upd_same cellv_upd_other comp_def)
  next
    case False
    then have "\<forall>r\<in>set (rows d). \<not> isnull (series_map gender_translation (cellv r ''gender''))"
      by (simp add: any_null_iff rows_assign cellv_upd_same)
    then have "map (\<lambda>r. r(''genero_es'' \<mapsto> series_map gender_translation (cellv r ''gender''))) (rows d)
               = map gender_row (rows d)"
      by (simp add: gender_row_def gender_loc_def Let_def)
    then show ?thesis using False
      by (simp add: transform_gender_def Let_def rows_assign)
  qed
qed

lemma transform_gender_columns:
  "set (columns (transform_gender d)) = insert ''genero_es'' (set (columns d))"
  by (simp add: transform_gender_def Let_def fill_from_def columns_assign)

lemma transform_illness_rows: "rows (transform_illness d) = map illness_row (rows d)"
proof -
  let ?d1 = "assign ''Illness'' ObjectT (\<lambda>r. cellv r ''illness'') d"
  let ?d2 = "assign ''enfermedad_es'' ObjectT (\<lambda>r. series_map illness_translation (cellv r ''illness'')) ?d1"
  show ?thesis
  proof (cases "any_null ''enfermedad_es'' ?d2")
    case True
    then show ?thesis
      by (simp add: transform_illness_def Let_def fill_from_def rows_assign illness_row_def
            illness_loc_def cellv_upd_same cellv_upd_other comp_def)
  next
    case False
    then have "\<forall>r\<in>set (rows d). \<not> isnull (series_map illness_translation (cellv r ''illness''))"
      by (simp add: any_null_iff rows_assign cellv_upd_same cellv_upd_other)
    then have "map (\<lambda>r. r(''Illness'' \<mapsto> cellv r ''illness'',
                   ''enfermedad_es'' \<mapsto> series_map illness_translation (cellv r ''illness''))) (rows d)
               = map illness_row (rows d)"
      by (simp add: illness_row_def illness_loc_def Let_def)
    then show ?thesis using False
      by (simp add: transform_illness_def Let_def rows_assign comp_def cellv_upd_other)
  qed
qed

lemma transform_illness_columns:
  "set (columns (transform_illness d)) = {''Illness'', ''enfermedad_es''} \<union> set (columns d)"
  by (auto simp: transform_illness_def Let_def fill_from_def columns_assign)

lemma transform_age_rows: "rows (transform_age_to_lustros d) = map age_row (rows d)"
  by (simp add: transform_age_to_lustros_def Let_def rows_assign age_row_def comp_def cellv_upd_same)

lemma transform_age_columns:
  "set (columns (transform_age_to_lustros d)) = insert ''edad_lustros'' (set (columns d))"
  by (simp add: transform_age_to_lustros_def Let_def columns_assign)

lemma transform_income_rows: "rows (transform_income_to_cop trm d) = map (income_row trm) (rows d)"
  by (simp add: transform_income_to_cop_def Let_def rows_assign income_row_def comp_def cellv_upd_same)

lemma transform_income_columns:
  "set (columns (transform_income_to_cop trm d)) = {''ingreso_cop'', ''trm_utilizada''} \<union> set (columns d)"
  by (auto simp: transform_income_to_cop_def Let_def columns_assign)

lemma vec_gender: "transform_gender_vectorized = transform_gender"
  by (rule ext) (simp add: transform_gender_vectorized_def transform_gender_def)

lemma vec_illness: "transform_illness_vectorized = transform_illness"
  by (rule ext) (simp add: transform_illness_vectorized_def transform_illness_def)

lemma transform_age_vec_rows: "rows (transform_age_to_lustros_vectorized d) = map age_row (rows d)"
  by (simp add: transform_age_to_lustros_vectorized_def rows_assign age_row_def)

lemma transform_age_vec_columns:
  "set (columns (transform_age_to_lustros_vectorized d)) = insert ''edad_lustros'' (set (columns d))"
  by (simp add: transform_age_to_lustros_vectorized_def columns_assign)

lemma transform_income_vec_rows: "rows (transform_income_to_cop_vectorized trm d) = map (income_row trm) (rows d)"
  by (simp add: transform_income_to_cop_vectorized_def Let_def rows_assign income_row_def comp_def)

lemma transform_income_vec_columns:
  "set (columns (transform_income_to_cop_vectorized trm d)) = {''ingreso_cop'', ''trm_utilizada''} \<union> set (columns d)"
  by (auto simp: transform_income_to_cop_vectorized_def Let_def columns_assign)

lemma rows_drop: "rows (drop_column c d) = map (\<lambda>r. r(c := None)) (rows d)"
  by (simp add: drop_column_def)

lemma columns_drop: "set (columns (drop_column c d)) = set (columns d) - {c}"
  by (auto simp: drop_column_def)

lemma rows_copy: "src \<in> set (columns d) \<Longrightarrow> rows (copy_column src dst d) = map (\<lambda>r. r(dst \<mapsto> cellv r src)) (rows d)"
  by (simp add: copy_column_def rows_assign)

lemma columns_copy: "src \<in> set (columns d) \<Longrightarrow> set (columns (copy_column src dst d)) = insert dst (set (columns d))"
  by (simp add: copy_column_def columns_assign)

lemma rows_select: "rows (select_columns cs d) = map (\<lambda>r. r |` set cs) (rows d)"
  by (simp add: select_columns_def)

lemma columns_select: "columns (select_columns cs d) = cs"
  by (simp add: select_columns_def)

lemma metadata_rows:
  assumes "set transformed_columns \<subseteq> set (columns d)"
  shows "rows (add_transformation_metadata now d) = map (meta_row now) (rows d)"
    and "columns (add_transformation_metadata now d) = desired_order"
proof -
  let ?d1 = "assign ''fecha_procesamiento'' ObjectT (\<lambda>r. Str now) d"
  let ?d2 = "drop_column ''illness'' ?d1"
  let ?d3 = "drop_column ''name'' (copy_column ''name'' ''nombre'' ?d2)"
  let ?d4 = "copy_column ''age'' ''edad_anos'' ?d3"
  let ?d5 = "copy_column ''income'' ''ingreso_usd'' ?d4"
  let ?d6 = "copy_column ''gender'' ''genero_original'' ?d5"
  let ?d7 = "copy_column ''Illness'' ''enfermedad_original'' ?d6"
  have m: "''name'' \<in> set (columns d)" "''age'' \<in> set (columns d)" "''gender'' \<in> set (columns d)"
    "''income'' \<in> set (columns d)" "''illness'' \<in> set (columns d)" "''Illness'' \<in> set (columns d)"
    "''genero_es'' \<in> set (columns d)" "''enfermedad_es'' \<in> set (columns d)"
    "''edad_lustros'' \<in> set (columns d)" "''ingreso_cop'' \<in> set (columns d)"
    "''trm_utilizada'' \<in> set (columns d)"
    using assms by (simp_all add: transformed_columns_def)
  have c1: "set (columns ?d1) = insert ''fecha_procesamiento'' (set (columns d))"
    by (simp add: columns_assign)
  have c2: "set (columns ?d2) = set (columns ?d1) - {''illness''}" by (simp add: columns_drop)
  have n2: "''name'' \<in> set (columns ?d2)" using m by (simp add: c2 c1)
  have c3: "set (columns ?d3) = insert ''nombre'' (set (columns ?d2)) - {''name''}"
    using n2 by (simp add: columns_drop columns_copy)
  have a3: "''age'' \<in> set (columns ?d3)" using m by (simp add: c3 c2 c1)
  have c4: "set (columns ?d4) = insert ''edad_anos'' (set (columns ?d3))"
    using a3 by (rule columns_copy)
  have i4: "''income'' \<in> set (columns ?d4)" using m by (simp add: c4 c3 c2 c1)
  have c5: "set (columns ?d5) = insert ''ingreso_usd'' (set (columns ?d4))"
    using i4 by (rule columns_copy)
  have g5: "''gender'' \<in> set (columns ?d5)" using m by (simp add: c5 c4 c3 c2 c1)
  have c6: "set (columns ?d6) = insert ''genero_original'' (set (columns ?d5))"
    using g5 by (rule columns_copy)
  have I6: "''Illness'' \<in> set (columns ?d6)" using m by (simp add: c6 c5 c4 c3 c2 c1)
  have c7: "set (columns ?d7) = insert ''enfermedad_original'' (set (columns ?d6))"
    using I6 by (rule columns_copy)
  have f: "filter (\<lambda>c. c \<in> set (columns ?d7)) desired_order = desired_order"
    using m by (simp add: desired_order_def c7 c6 c5 c4 c3 c2 c1)
  have i1: "''illness'' \<in> set (columns ?d1)" using m by (simp add: c1)
  have e: "add_transformation_metadata now d = select_columns desired_order ?d7"
    using i1 n2 f by (simp add: add_transformation_metadata_def Let_def)
  show "columns (add_transformation_metadata now d) = desired_order"
    by (simp only: e columns_select)
  have r2: "rows ?d2 = map (\<lambda>r. r(''fecha_procesamiento'' \<mapsto> Str now, ''illness'' := None)) (rows d)"
    by (simp add: rows_drop rows_assign comp_def)
  have r3: "rows ?d3 = map (\<lambda>r. r(''nombre'' \<mapsto> cellv r ''name'', ''name'' := None)) (rows ?d2)"
    using n2 by (simp add: rows_drop rows_copy comp_def)
  have r4: "rows ?d4 = map (\<lambda>r. r(''edad_anos'' \<mapsto> cellv r ''age'')) (rows ?d3)"
    using a3 by (rule rows_copy)
  have r5: "rows ?d5 = map (\<lambda>r. r(''ingreso_usd'' \<mapsto> cellv r ''income'')) (rows ?d4)"
    using i4 by (rule rows_copy)
  have r6: "rows ?d6 = map (\<lambda>r. r(''genero_original'' \<mapsto> cellv r ''gender'')) (rows ?d5)"
    using g5 by (rule rows_copy)
  have r7: "rows ?d7 = map (\<lambda>r. r(''enfermedad_original'' \<mapsto> cellv r ''Illness'')) (rows ?d6)"
    using I6 by (rule rows_copy)
  show "rows (add_transformation_metadata now d) = map (meta_row now) (rows d)"
    by (simp only: e rows_select r7 r6 r5 r4 r3 r2)
       (simp add: comp_def meta_row_def cellv_def)
qed

lemma clean_opt_eq: "clean_data_optimized L df = clean_data L df"
proof (cases "filter (\<lambda>c. dtypes df c = ObjectT) (columns df) = []")
  case True
  then have "strip_text_columns L df = df" by (simp add: strip_text_columns_def)
  then show ?thesis by (simp add: clean_data_optimized_def clean_data_def)
next
  case False
  then show ?thesis by (simp add: clean_data_optimized_def clean_data_def)
qed

lemma clean_data_Inr_iff:
  "(\<exists>c. clean_data L df = Inr c) \<longleftrightarrow>
     set critical_columns \<subseteq> set (columns df) \<and> dtypes df ''gender'' = ObjectT
       \<and> dtypes df ''illness'' = ObjectT"
proof
  assume "\<exists>c. clean_data L df = Inr c"
  then obtain c where "clean_data L df = Inr c" ..
  from clean_data_rows(3,4,5)[OF this]
  show "set critical_columns \<subseteq> set (columns df) \<and> dtypes df ''gender'' = ObjectT
       \<and> dtypes df ''illness'' = ObjectT" by simp
next
  assume a: "set critical_columns \<subseteq> set (columns df) \<and> dtypes df ''gender'' = ObjectT
       \<and> dtypes df ''illness'' = ObjectT"
  let ?d1 = "strip_text_columns L df"
  let ?d2 = "numeric_column L ''age'' ?d1"
  let ?d3 = "numeric_column L ''income'' ?d2"
  note s = strip_text_columns_eq[of L df]
  have c3: "columns ?d3 = columns df" by (simp add: numeric_column_columns s)
  have t3: "dtypes ?d3 ''gender'' = ObjectT" "dtypes ?d3 ''illness'' = ObjectT"
    using a by (simp_all add: numeric_column_dtypes s)
  let ?d4 = "assign ''gender'' ObjectT (\<lambda>r. str_strip (str_lower (cellv r ''gender''))) ?d3"
  have g: "normalize_text ''gender'' ?d3 = Inr ?d4"
    using a t3 c3 by (simp add: normalize_text_def critical_columns_def)
  have c4: "columns ?d4 = columns df" using a c3 by (simp add: columns_assign_mem critical_columns_def)
  have t4: "dtypes ?d4 ''illness'' = ObjectT" using t3 by (simp add: dtypes_assign)
  let ?d5 = "assign ''illness'' ObjectT (\<lambda>r. str_strip (str_lower (cellv r ''illness''))) ?d4"
  have i: "normalize_text ''illness'' ?d4 = Inr ?d5"
    using a t4 c4 by (simp add: normalize_text_def critical_columns_def)
  have c5: "columns ?d5 = columns df" using a c4 by (simp add: columns_assign_mem critical_columns_def)
  have "filter (\<lambda>c. c \<notin> set (columns ?d5)) critical_columns = []"
    using a unfolding c5 by (auto simp: filter_empty_conv)
  then have "\<exists>c. dropna ?d5 = Inr c" by (simp add: dropna_def)
  then show "\<exists>c. clean_data L df = Inr c"
    using g i by (simp add: clean_data_def Let_def)
qed


lemma transform_data_rows:
  assumes "transform_data L now self df v = Inr (out, self')"
  shows "self' = resolve_trm self v"
    and "rows out = map (canon_row now (batch_rate self v))
                        (filter complete_row (map (clean_row L df) (rows df)))"
    and "columns out = desired_order"
proof -
  from assms obtain c where c: "clean_data L df = Inr c"
    by (auto simp: transform_data_def split: sum.splits)
  note C = clean_data_rows[OF c]
  let ?t = "batch_rate self v"
  let ?d4 = "transform_income_to_cop ?t (transform_age_to_lustros (transform_illness (transform_gender c)))"
  from assms c show "self' = resolve_trm self v"
    by (simp add: transform_data_def Let_def)
  from assms c have o: "out = add_transformation_metadata now ?d4"
    by (auto simp: transform_data_def Let_def batch_rate_def)
  have "set transformed_columns \<subseteq> set (columns ?d4)"
    using C(3) unfolding C(2)[symmetric]
    by (auto simp: transform_income_columns transform_age_columns transform_illness_columns
          transform_gender_columns transformed_columns_def critical_columns_def)
  note M = metadata_rows[OF this, of now]
  show "columns out = desired_order" using M(2) o by simp
  show "rows out = map (canon_row now ?t) (filter complete_row (map (clean_row L df) (rows df)))"
    unfolding o M(1)
    by (simp add: transform_income_rows transform_age_rows transform_illness_rows
          transform_gender_rows C(1) canon_row_def comp_def)
qed

lemma transform_data_total:
  assumes "clean_data L df = Inr c"
  shows "\<exists>out. transform_data L now self df v = Inr (out, resolve_trm self v)"
  using assms by (simp add: transform_data_def Let_def)

lemma canon_lookup:
  "canon_row now trm r ''nombre'' = Some (cellv r ''name'')"
  "canon_row now trm r ''edad_anos'' = Some (cellv r ''age'')"
  "canon_row now trm r ''edad_lustros'' = Some (cell_round2 (cell_div (cellv r ''age'') 5))"
  "canon_row now trm r ''genero_original'' = Some (cellv r ''gender'')"
  "canon_row now trm r ''genero_es'' = Some (gender_loc (cellv r ''gender''))"
  "canon_row now trm r ''ingreso_usd'' = Some (cellv r ''income'')"
  "canon_row now trm r ''ingreso_cop'' = Some (cell_round2 (cell_mul (cellv r ''income'') trm))"
  "canon_row now trm r ''trm_utilizada'' = Some (Num trm)"
  "canon_row now trm r ''enfermedad_original'' = Some (cellv r ''illness'')"
  "canon_row now trm r ''enfermedad_es'' = Some (illness_loc (cellv r ''illness''))"
  "canon_row now trm r ''fecha_procesamiento'' = Some (Str now)"
  by (simp_all add: canon_row_def meta_row_def income_row_def age_row_def illness_row_def
        gender_row_def desired_order_def cellv_def restrict_map_def del: restrict_fun_upd)

lemma transform_opt_eq: "transform_data_optimized = transform_data"
proof -
  have a: "transform_age_to_lustros_vectorized d = transform_age_to_lustros d" for d
    by (simp add: transform_age_to_lustros_vectorized_def transform_age_to_lustros_def Let_def
          assign_def comp_def cellv_upd_same)
  have i: "transform_income_to_cop_vectorized t d = transform_income_to_cop t d" for t d
    by (simp add: transform_income_to_cop_vectorized_def transform_income_to_cop_def Let_def
          assign_def comp_def cellv_upd_same)
  show ?thesis
    by (intro ext) (simp only: transform_data_optimized_def transform_data_def clean_opt_eq
          vec_gender vec_illness a i)
qed

lemma transform_either:
  assumes "T = transform_data \<or> T = transform_data_optimized"
      and "T L now self df v = Inr (out, self')"
  shows "transform_data L now self df v = Inr (out, self')"
  using assms by (auto simp: transform_opt_eq)

lemma list_all2_survivors:
  assumes "\<And>raw. raw \<in> set xs \<Longrightarrow> survives L df raw \<Longrightarrow> P raw (f (clean_row L df raw))"
  shows "list_all2 P (filter (survives L df) xs)
           (map f (filter complete_row (map (clean_row L df) xs)))"
proof -
  have "filter complete_row (map (clean_row L df) xs) = map (clean_row L df) (filter (survives L df) xs)"
    by (simp add: filter_map comp_def survives_def[abs_def])
  then show ?thesis using assms
    by (simp add: list_all2_map2 list_all2_same)
qed



lemma illness_loc_unmapped: "s \<notin> dom illness_translation \<Longrightarrow> illness_loc (Str s) = Str ''No''"
  by (auto simp: illness_loc_def Let_def dom_def)

lemma gender_loc_unmapped: "s \<notin> dom gender_translation \<Longrightarrow> gender_loc (Str s) = Str s"
  by (auto simp: gender_loc_def Let_def dom_def)

lemma lower_strip_No: "lower (strip ''No'') = ''no''"
  by code_simp

lemma no_in_dom: "''no'' \<in> dom illness_translation"
  by (simp add: illness_translation_def)

lemma No_neq_Si: "''No'' \<noteq> Si"
  by (simp add: Si_def)

text \<open>
  Claim C3. For every surviving raw row whose illness value, trimmed and lower-cased, is
  not a key of the illness vocabulary, the output row's \<open>enfermedad_es\<close> is
  \<open>No\<close>: it is not the affirmative label and it is not the raw value.
\<close>
theorem illness_unmapped_falls_back_to_No:
  assumes "T = transform_data \<or> T = transform_data_optimized"
      and "T L now self df v = Inr (out, self')"
  shows "list_all2 (\<lambda>raw r.
            lower (strip (astype_str L (cellv raw ''illness''))) \<notin> dom illness_translation \<longrightarrow>
              r ''enfermedad_es'' = Some (Str ''No'') \<and>
              r ''enfermedad_es'' \<noteq> Some (Str Si) \<and>
              r ''enfermedad_es'' \<noteq> raw ''illness'')
          (filter (survives L df) (rows df)) (rows out)"
proof -
  note t = transform_either[OF assms]
  note R = transform_data_rows[OF t]
  from t obtain c where c: "clean_data L df = Inr c"
    by (auto simp: transform_data_def split: sum.splits)
  note C = clean_data_rows[OF c]
  have im: "''illness'' \<in> set (columns df)" using C(3) by (auto simp: critical_columns_def)
  show ?thesis unfolding R(2)
  proof (rule list_all2_survivors)
    fix raw
    let ?s = "lower (strip (astype_str L (cellv raw ''illness'')))"
    have cl: "cellv (clean_row L df raw) ''illness'' = Str ?s"
      by (simp add: clean_row_illness[OF im C(5)] norm_text_eq)
    show "?s \<notin> dom illness_translation \<longrightarrow>
              canon_row now (batch_rate self v) (clean_row L df raw) ''enfermedad_es'' = Some (Str ''No'') \<and>
              canon_row now (batch_rate self v) (clean_row L df raw) ''enfermedad_es'' \<noteq> Some (Str Si) \<and>
              canon_row now (batch_rate self v) (clean_row L df raw) ''enfermedad_es'' \<noteq> raw ''illness''"
    proof
      assume u: "?s \<notin> dom illness_translation"
      have e: "canon_row now (batch_rate self v) (clean_row L df raw) ''enfermedad_es'' = Some (Str ''No'')"
        by (simp add: canon_lookup cl illness_loc_unmapped[OF u])
      have "raw ''illness'' \<noteq> Some (Str ''No'')"
      proof
        assume "raw ''illness'' = Some (Str ''No'')"
        then have "?s = ''no''" by (simp add: cellv_def lower_strip_No)
        with u no_in_dom show False by simp
      qed
      with e No_neq_Si show "canon_row now (batch_rate self v) (clean_row L df raw) ''enfermedad_es'' = Some (Str ''No'') \<and>
              canon_row now (batch_rate self v) (clean_row L df raw) ''enfermedad_es'' \<noteq> Some (Str Si) \<and>
              canon_row now (batch_rate self v) (clean_row L df raw) ''enfermedad_es'' \<noteq> raw ''illness''"
        by simp
    qed
  qed
qed

text \<open>
  Claim C4, as amended. For every surviving raw row whose gender value, trimmed and
  lower-cased, is not a key of the gender vocabulary, the output row's \<open>genero_es\<close>
  is that trimmed, lower-cased value, the very value that \<open>genero_original\<close> holds:
  the cleaning step has normalised the column in place before the localization reads it.
\<close>
theorem gender_unmapped_passes_cleaned_value:
  assumes "T = transform_data \<or> T = transform_data_optimized"
      and "T L now self df v = Inr (out, self')"
  shows "list_all2 (\<lambda>raw r.
            lower (strip (astype_str L (cellv raw ''gender''))) \<notin> dom gender_translation \<longrightarrow>
              r ''genero_es'' = Some (Str (lower (strip (astype_str L (cellv raw ''gender''))))) \<and>
              r ''genero_es'' = r ''genero_original'')
          (filter (survives L df) (rows df)) (rows out)"
proof -
  note t = transform_either[OF assms]
  note R = transform_data_rows[OF t]
  from t obtain c where c: "clean_data L df = Inr c"
    by (auto simp: transform_data_def split: sum.splits)
  note C = clean_data_rows[OF c]
  have gm: "''gender'' \<in> set (columns df)" using C(3) by (auto simp: critical_columns_def)
  show ?thesis unfolding R(2)
  proof (rule list_all2_survivors)
    fix raw
    let ?s = "lower (strip (astype_str L (cellv raw ''gender'')))"
    have cl: "cellv (clean_row L df raw) ''gender'' = Str ?s"
      by (simp add: clean_row_gender[OF gm C(4)] norm_text_eq)
    show "?s \<notin> dom gender_translation \<longrightarrow>
              canon_row now (batch_rate self v) (clean_row L df raw) ''genero_es'' = Some (Str ?s) \<and>
              canon_row now (batch_rate self v) (clean_row L df raw) ''genero_es''
                = canon_row now (batch_rate self v) (clean_row L df raw) ''genero_original''"
      by (simp add: canon_lookup cl gender_loc_unmapped)
  qed
qed




lemma sample_clean_ok: "\<exists>c. clean_data sample_lib (sample_df rs) = Inr c"
  by (simp add: clean_data_Inr_iff sample_df_def sample_dtypes_def critical_columns_def)


lemma sample_cols:
  "''name'' \<in> set (columns (sample_df rs))" "''age'' \<in> set (columns (sample_df rs))"
  "''gender'' \<in> set (columns (sample_df rs))" "''income'' \<in> set (columns (sample_df rs))"
  "''illness'' \<in> set (columns (sample_df rs))"
  "dtypes (sample_df rs) ''gender'' = ObjectT" "dtypes (sample_df rs) ''illness'' = ObjectT"
  "dtypes (sample_df rs) ''name'' = ObjectT" "dtypes (sample_df rs) ''age'' = NumericT"
  "dtypes (sample_df rs) ''income'' = NumericT"
  by (simp_all add: sample_df_def sample_dtypes_def critical_columns_def)










lemma sample_run:
  "\<exists>out. transform_data sample_lib sample_now sample_transformer (sample_df rs) v
           = Inr (out, resolve_trm sample_transformer v)"
  using sample_clean_ok transform_data_total by blast

lemma bea_cells:
  "cellv bea ''name'' = Str ''Bea''" "cellv bea ''age'' = Num 30"
  "cellv bea ''gender'' = Str ''Other''" "cellv bea ''income'' = Num 500"
  "cellv bea ''illness'' = Str ''Maybe''"
  by (simp_all add: bea_def cellv_def)

lemma strip_Bea: "strip ''Bea'' = ''Bea''" by code_simp

lemma norm_Other: "norm_text ''Other'' = ''other''" by code_simp

lemma norm_Maybe: "norm_text ''Maybe'' = ''maybe''" by code_simp

lemma low_Other: "lower (strip ''Other'') = ''other''" by code_simp

lemma low_Maybe: "lower (strip ''Maybe'') = ''maybe''" by code_simp

lemma bea_clean:
  "cellv (clean_row sample_lib (sample_df rs) bea) ''name'' = Str ''Bea''"
  "cellv (clean_row sample_lib (sample_df rs) bea) ''age'' = Num 30"
  "cellv (clean_row sample_lib (sample_df rs) bea) ''gender'' = Str ''other''"
  "cellv (clean_row sample_lib (sample_df rs) bea) ''income'' = Num 500"
  "cellv (clean_row sample_lib (sample_df rs) bea) ''illness'' = Str ''maybe''"
  by (simp_all add: clean_row_name clean_row_age clean_row_income clean_row_gender clean_row_illness
        sample_cols bea_cells strip_Bea norm_Other norm_Maybe)

lemma bea_survives: "survives sample_lib (sample_df rs) bea"
  by (simp add: survives_def complete_row_def critical_columns_def bea_clean)

lemma maybe_unmapped: "''maybe'' \<notin> dom illness_translation"
  by (simp add: illness_translation_def dom_def)

lemma other_unmapped: "''other'' \<notin> dom gender_translation"
  by (simp add: gender_translation_def dom_def)

theorem illness_unmapped_witness:
  "\<exists>out self'. transform_data sample_lib sample_now sample_transformer (sample_df [bea]) None
        = Inr (out, self') \<and>
      lower (strip (astype_str sample_lib (cellv bea ''illness''))) \<notin> dom illness_translation \<and>
      map (\<lambda>r. r ''enfermedad_es'') (rows out) = [Some (Str ''No'')]"
proof -
  let ?df = "sample_df [bea]"
  from sample_run obtain out where
    t: "transform_data sample_lib sample_now sample_transformer ?df None
          = Inr (out, resolve_trm sample_transformer None)" by blast
  have f: "filter (survives sample_lib ?df) (rows ?df) = [bea]"
    using bea_survives[of "[bea]"] by (simp add: sample_df_def)
  have u: "lower (strip (astype_str sample_lib (cellv bea ''illness''))) \<notin> dom illness_translation"
    by (simp add: bea_cells low_Maybe maybe_unmapped)
  from illness_unmapped_falls_back_to_No[OF disjI1[OF refl] t]
  have "list_all2 (\<lambda>raw r.
            lower (strip (astype_str sample_lib (cellv raw ''illness''))) \<notin> dom illness_translation \<longrightarrow>
              r ''enfermedad_es'' = Some (Str ''No'') \<and>
              r ''enfermedad_es'' \<noteq> Some (Str Si) \<and>
              r ''enfermedad_es'' \<noteq> raw ''illness'') [bea] (rows out)"
    unfolding f .
  then obtain r where "rows out = [r]" "r ''enfermedad_es'' = Some (Str ''No'')"
    using u by (auto simp: list_all2_Cons1)
  then have m: "map (\<lambda>r. r ''enfermedad_es'') (rows out) = [Some (Str ''No'')]" by simp
  show ?thesis
    by (rule exI[of _ out], rule exI[of _ "resolve_trm sample_transformer None"])
       (simp only: t u m simp_thms)
qed

theorem gender_unmapped_witness:
  "\<exists>out self'. transform_data sample_lib sample_now sample_transformer (sample_df [bea]) None
        = Inr (out, self') \<and>
      lower (strip (astype_str sample_lib (cellv bea ''gender''))) \<notin> dom gender_translation \<and>
      map (\<lambda>r. (r ''genero_es'', r ''genero_original'')) (rows out)
        = [(Some (Str ''other''), Some (Str ''other''))]"
proof -
  let ?df = "sample_df [bea]"
  from sample_run obtain out where
    t: "transform_data sample_lib sample_now sample_transformer ?df None
          = Inr (out, resolve_trm sample_transformer None)" by blast
  have f: "filter (survives sample_lib ?df) (rows ?df) = [bea]"
    using bea_survives[of "[bea]"] by (simp add: sample_df_def)
  have u: "lower (strip (astype_str sample_lib (cellv bea ''gender''))) \<notin> dom gender_translation"
    by (simp add: bea_cells low_Other other_unmapped)
  from gender_unmapped_passes_cleaned_value[OF disjI1[OF refl] t]
  have "list_all2 (\<lambda>raw r.
            lower (strip (astype_str sample_lib (cellv raw ''gender''))) \<notin> dom gender_translation \<longrightarrow>
              r ''genero_es'' = Some (Str (lower (strip (astype_str sample_lib (cellv raw ''gender''))))) \<and>
              r ''genero_es'' = r ''genero_original'') [bea] (rows out)"
    unfolding f .
  then obtain r where "rows out = [r]" "r ''genero_es'' = Some (Str ''other'')"
     "r ''genero_original'' = Some (Str ''other'')"
    using u by (auto simp: list_all2_Cons1 bea_cells low_Other)
  then have m: "map (\<lambda>r. (r ''genero_es'', r ''genero_original'')) (rows out)
        = [(Some (Str ''other''), Some (Str ''other''))]" by simp
  show ?thesis
    by (rule exI[of _ out], rule exI[of _ "resolve_trm sample_transformer None"])
       (simp only: t u m simp_thms)
qed

text \<open>
  Claim C4 as stated fails: the raw gender \<open>Other\<close> is not in the vocabulary, and the
  output carries \<open>other\<close>, not the raw value.
\<close>
theorem gender_identity_counterexample:
  "cellv bea ''gender'' = Str ''Other'' \<and>
   lower (strip ''Other'') \<notin> dom gender_translation \<and>
   map_sum id (\<lambda>p. map (\<lambda>r. r ''genero_es'') (rows (fst p)))
     (transform_data sample_lib sample_now sample_transformer (sample_df [bea]) None)
     = Inr [Some (Str ''other'')] \<and>
   Str ''other'' \<noteq> Str ''Other''"
proof -
  let ?df = "sample_df [bea]"
  from sample_run obtain out where
    t: "transform_data sample_lib sample_now sample_transformer ?df None
          = Inr (out, resolve_trm sample_transformer None)" by blast
  have "rows out = [canon_row sample_now (batch_rate sample_transformer None)
                      (clean_row sample_lib ?df bea)]"
    using transform_data_rows(2)[OF t] bea_survives[of "[bea]"]
    by (simp add: sample_df_def survives_def)
  then have "map (\<lambda>r. r ''genero_es'') (rows out) = [Some (Str ''other'')]"
    by (simp add: canon_lookup bea_clean gender_loc_unmapped other_unmapped)
  then show ?thesis
    by (simp add: t bea_cells low_Other other_unmapped)
qed



















declare chunks.simps [simp del]

lemma db_op_state:
  "db_op F s = (r, s') \<Longrightarrow> committed s' = committed s \<and> pending s' = pending s \<and> ops s' = ops s + 1"
  by (auto simp: db_op_def)

lemma db_op_result: "fst (db_op F s) = (if F (ops s) then Inl (DatabaseError ''mysql error'') else Inr ())"
  by (simp add: db_op_def)

lemma verificar_state:
  "verificar_duplicado F s k = (b, s') \<Longrightarrow>
     committed s' = committed s \<and> pending s' = pending s \<and> ops s < ops s'"
  by (auto simp: verificar_duplicado_def db_op_def split: if_splits)

lemma verificar_fault:
  "F (ops s) \<or> F (ops s + 1) \<Longrightarrow> fst (verificar_duplicado F s k) = False"
  by (auto simp: verificar_duplicado_def db_op_def)

lemma verificar_True:
  assumes "fst (verificar_duplicado F s k)"
  shows "\<not> F (ops s) \<and> \<not> F (ops s + 1) \<and> (\<exists>r\<in>set (visible s). key_of r = k)"
proof -
  have f: "\<not> F (ops s)" "\<not> F (ops s + 1)"
    using assms verificar_fault[of F s k] by auto
  then have "0 < count_matching s k"
    using assms by (simp add: verificar_duplicado_def db_op_def count_matching_def visible_def)
  then have "filter (\<lambda>r. key_of r = k) (visible s) \<noteq> []"
    by (simp add: count_matching_def)
  then have "\<exists>r\<in>set (visible s). key_of r = k"
    by (simp add: filter_empty_conv)
  with f show ?thesis by simp
qed

lemma prepare_batch_admits:
  "\<not> fst (verificar_duplicado F s (key_of r)) \<Longrightarrow> r \<in> set (fst (prepare_batch F s (r # rs)))"
  by (auto split: prod.splits)

lemma prepare_batch_state:
  "prepare_batch F s b = (bd, n, s') \<Longrightarrow>
     committed s' = committed s \<and> pending s' = pending s \<and> ops s \<le> ops s'"
proof (induction b arbitrary: s bd n s')
  case Nil
  then show ?case by simp
next
  case (Cons r rs)
  obtain dup s1 where v: "verificar_duplicado F s (key_of r) = (dup, s1)" by fastforce
  obtain bd2 n2 s2 where p: "prepare_batch F s1 rs = (bd2, n2, s2)" by (metis prod_cases3)
  from Cons.prems v p have "s' = s2" by (auto split: if_splits)
  with Cons.IH[OF p] verificar_state[OF v] show ?case by simp
qed

lemma executemany_state:
  "executemany F s bd = (r, s') \<Longrightarrow> committed s' = committed s \<and> ops s' = ops s + 1"
  by (auto simp: executemany_def db_op_def split: if_splits)

lemma run_batches_committed:
  "run_batches F s bs n = (r, s') \<Longrightarrow> committed s' = committed s \<and> ops s \<le> ops s'"
proof (induction bs arbitrary: s n)
  case Nil
  then show ?case by simp
next
  case (Cons b bs)
  obtain bd d s1 where p: "prepare_batch F s b = (bd, d, s1)" by (metis prod_cases3)
  note P = prepare_batch_state[OF p]
  show ?case
  proof (cases "bd = []")
    case True
    with Cons.prems p have "run_batches F s1 bs n = (r, s')" by simp
    from Cons.IH[OF this] P show ?thesis by simp
  next
    case False
    obtain x s2 where e: "executemany F s1 bd = (x, s2)" by fastforce
    note E = executemany_state[OF e]
    show ?thesis
    proof (cases x)
      case (Inl err)
      with Cons.prems p e False have "s' = s2" by simp
      with E P show ?thesis by simp
    next
      case (Inr k)
      with Cons.prems p e False have "run_batches F s2 bs (n + k) = (r, s')" by simp
      from Cons.IH[OF this] E P show ?thesis by simp
    qed
  qed
qed

lemma commit_Inl: "commit F s = (Inl e, s') \<Longrightarrow> committed s' = committed s \<and> ops s' = ops s + 1"
  by (auto simp: commit_def db_op_def split: if_splits)

lemma bulk_body_Inl:
  assumes "bulk_body F bsz s recs = (Inl e, s')"
  shows "committed s' = committed s"
proof -
  from assms have ne: "recs \<noteq> []" by (auto simp: bulk_body_def)
  obtain x s1 where o: "db_op F s = (x, s1)" by fastforce
  note O = db_op_state[OF o]
  show ?thesis
  proof (cases x)
    case (Inl err)
    with assms ne o have "s' = s1" by (simp add: bulk_body_def)
    with O show ?thesis by simp
  next
    case (Inr u)
    show ?thesis
    proof (cases "bsz = 0")
      case True
      with assms ne o Inr have "s' = s1" by (simp add: bulk_body_def)
      with O show ?thesis by simp
    next
      case False
      obtain y s2 where r: "run_batches F s1 (chunks bsz recs) 0 = (y, s2)" by fastforce
      note R = run_batches_committed[OF r]
      show ?thesis
      proof (cases y)
        case (Inl err)
        with assms ne o Inr False r have "s' = s2" by (simp add: bulk_body_def)
        with R O show ?thesis by simp
      next
        case (Inr n)
        obtain z s3 where c: "commit F s2 = (z, s3)" by fastforce
        from assms ne o \<open>x = Inr u\<close> False r Inr c have "z = Inl e \<and> s' = s3"
          by (cases z) (simp_all add: bulk_body_def)
        with c commit_Inl[of F s2 e s3] R O show ?thesis by simp
      qed
    qed
  qed
qed

lemma rollback_state:
  "rollback F s = (r, s') \<Longrightarrow>
     committed s' = committed s \<and> ops s' = ops s + 1 \<and> (\<not> F (ops s) \<longrightarrow> pending s' = [])"
  by (auto simp: rollback_def db_op_def split: if_splits)

lemma bulk_Inl:
  assumes "insertar_personas_transformadas_bulk F bsz s recs = (Inl e, s')"
  shows "committed s' = committed s \<and> (\<not> F (ops s' - 1) \<longrightarrow> pending s' = [])"
proof -
  obtain x s1 where b: "bulk_body F bsz s recs = (x, s1)" by fastforce
  from assms b obtain e0 where x: "x = Inl e0"
    by (cases x) (simp_all add: insertar_personas_transformadas_bulk_def)
  obtain y s2 where r: "rollback F s1 = (y, s2)" by fastforce
  from assms b x r have "s' = s2"
    by (cases y) (simp_all add: insertar_personas_transformadas_bulk_def)
  with rollback_state[OF r] bulk_body_Inl[OF b[unfolded x]] show ?thesis by simp
qed

lemma load_to_database_Inl:
  assumes "load_to_database L S now F s df = (Inl e, s')"
  shows "committed s' = committed s"
proof (cases "prepare_dataframe_for_database L S now df")
  case (Inl err)
  with assms show ?thesis by (simp add: load_to_database_def)
next
  case (Inr recs)
  with assms have "insertar_personas_transformadas_bulk F 1000 s recs = (Inl e, s')"
    by (simp add: load_to_database_def insertar_personas_transformadas_def)
  from bulk_Inl[OF this] show ?thesis by simp
qed

text \<open>
  Claim C10. When the duplicate query fails (obtaining the cursor or executing the
  SELECT raises), \<open>verificar_duplicado\<close> answers \<open>False\<close>, and the bulk insert then
  puts the record among the rows to insert. A record is skipped only after a query that
  succeeded and found a row with its key.
\<close>

theorem failing_duplicate_check_admits_record:
  "(F (ops s) \<or> F (ops s + 1) \<longrightarrow> fst (verificar_duplicado F s k) = False) \<and>
   (\<not> fst (verificar_duplicado F s (key_of r)) \<longrightarrow>
      r \<in> set (fst (prepare_batch F s (r # rs)))) \<and>
   (fst (verificar_duplicado F s k) \<longrightarrow>
      \<not> F (ops s) \<and> \<not> F (ops s + 1) \<and> (\<exists>x\<in>set (visible s). key_of x = k))"
  using verificar_fault[of F s k] prepare_batch_admits[of F s r rs] verificar_True[of F s k]
  by blast

lemma chunks_single: "0 < n \<Longrightarrow> xs \<noteq> [] \<Longrightarrow> length xs \<le> n \<Longrightarrow> chunks n xs = [xs]"
  by (simp add: chunks.simps[of n xs] chunks.simps[of n "[]"])

theorem failing_duplicate_check_witness:
  "fst (verificar_duplicado (\<lambda>n. n = 2) (conn_with_ana\<lparr>ops := 1\<rparr>) (key_of rec_ana)) = False \<and>
   rec_ana \<in> set (fst (prepare_batch (\<lambda>n. n = 2) (conn_with_ana\<lparr>ops := 1\<rparr>) [rec_ana])) \<and>
   insertar_personas_transformadas_bulk (\<lambda>n. n = 2) 1000 conn_with_ana [rec_ana]
     = (Inr 1, \<lparr>committed = [rec_ana, rec_ana], pending = [], ops = 5\<rparr>) \<and>
   insertar_personas_transformadas_bulk (\<lambda>n. False) 1000 conn_with_ana [rec_ana]
     = (Inr 0, \<lparr>committed = [rec_ana], pending = [], ops = 4\<rparr>)"
proof -
  let ?F = "\<lambda>n::nat. n = 2"
  let ?s = "conn_with_ana\<lparr>ops := 1\<rparr>"
  note T = failing_duplicate_check_admits_record[of ?F ?s "key_of rec_ana" rec_ana "[]"]
  have "?F (ops ?s) \<or> ?F (ops ?s + 1)" by simp
  with T have 1: "fst (verificar_duplicado ?F ?s (key_of rec_ana)) = False" by blast
  with T have 2: "rec_ana \<in> set (fst (prepare_batch ?F ?s [rec_ana]))" by blast
  have c: "chunks 1000 [rec_ana] = [[rec_ana]]" by (simp add: chunks_single)
  have 3: "insertar_personas_transformadas_bulk ?F 1000 conn_with_ana [rec_ana]
     = (Inr 1, \<lparr>committed = [rec_ana, rec_ana], pending = [], ops = 5\<rparr>)"
    by (simp add: insertar_personas_transformadas_bulk_def bulk_body_def c db_op_def
          verificar_duplicado_def executemany_def commit_def conn_with_ana_def)
  have 4: "insertar_personas_transformadas_bulk (\<lambda>n. False) 1000 conn_with_ana [rec_ana]
     = (Inr 0, \<lparr>committed = [rec_ana], pending = [], ops = 4\<rparr>)"
    by (simp add: insertar_personas_transformadas_bulk_def bulk_body_def c db_op_def
          verificar_duplicado_def count_matching_def visible_def commit_def conn_with_ana_def)
  from 1 2 3 4 show ?thesis by simp
qed

lemma save_sink_fst: "fst (save_sink L S now env df k fs) = fst (save_sink L S now env df k fsz)"
  by (cases k) (auto simp: write_file_def Let_def split: option.splits sum.splits)

lemma save_sink_fs:
  "save_sink L S now env df k fs = (r, fs') \<Longrightarrow>
     set fs \<subseteq> set fs' \<and> (\<forall>p. r = Inr p \<longrightarrow> p \<in> set fs')"
  by (cases k) (auto simp: write_file_def Let_def split: option.splits sum.splits if_splits)

lemma file_of_set_file: "file_of k (set_file k' p res) = (if k = k' then Some p else file_of k res)"
  by (cases k; cases k') simp_all

lemma file_of_errors_update [simp]: "file_of k (res\<lparr>errors := x\<rparr>) = file_of k res"
  by (cases k) simp_all

lemma errors_set_file [simp]: "errors (set_file k p res) = errors res"
  by (cases k) simp_all

lemma records_set_file [simp]: "database_records (set_file k p res) = database_records res"
  by (cases k) simp_all

lemma try_sink_props:
  assumes "try_sink L S now env df k st = st'"
  shows "set (snd st) \<subseteq> set (snd st')"
    and "set (errors (fst st)) \<subseteq> set (errors (fst st'))"
    and "database_records (fst st') = database_records (fst st)"
    and "k' \<noteq> k \<Longrightarrow> file_of k' (fst st') = file_of k' (fst st)"
    and "fst (save_sink L S now env df k fsz) = Inr p \<Longrightarrow>
           file_of k (fst st') = Some p \<and> p \<in> set (snd st')"
    and "fst (save_sink L S now env df k fsz) = Inl e \<Longrightarrow>
           file_of k (fst st') = file_of k (fst st) \<and>
           error_prefix k @ exn_text e \<in> set (errors (fst st'))"
proof -
  obtain r fs' where s: "save_sink L S now env df k (snd st) = (r, fs')" by fastforce
  note F = save_sink_fs[OF s]
  have r: "r = fst (save_sink L S now env df k fsz)"
    using s save_sink_fst[of L S now env df k "snd st" fsz] by simp
  show "set (snd st) \<subseteq> set (snd st')"
    using assms s F by (cases r) (auto simp: try_sink_def)
  show "set (errors (fst st)) \<subseteq> set (errors (fst st'))"
    using assms s by (cases r) (auto simp: try_sink_def)
  show "database_records (fst st') = database_records (fst st)"
    using assms s by (cases r) (auto simp: try_sink_def)
  show "k' \<noteq> k \<Longrightarrow> file_of k' (fst st') = file_of k' (fst st)"
    using assms s by (cases r) (auto simp: try_sink_def file_of_set_file)
  show "fst (save_sink L S now env df k fsz) = Inr p \<Longrightarrow>
           file_of k (fst st') = Some p \<and> p \<in> set (snd st')"
    using assms s F r by (auto simp: try_sink_def file_of_set_file)
  show "fst (save_sink L S now env df k fsz) = Inl e \<Longrightarrow>
           file_of k (fst st') = file_of k (fst st) \<and>
           error_prefix k @ exn_text e \<in> set (errors (fst st'))"
    using assms s r by (auto simp: try_sink_def)
qed

lemma fold_try_sink:
  assumes "distinct ks"
  shows "set (snd st) \<subseteq> set (snd (fold (try_sink L S now env df) ks st)) \<and>
         set (errors (fst st)) \<subseteq> set (errors (fst (fold (try_sink L S now env df) ks st))) \<and>
         database_records (fst (fold (try_sink L S now env df) ks st)) = database_records (fst st) \<and>
         (\<forall>k. k \<notin> set ks \<longrightarrow>
            file_of k (fst (fold (try_sink L S now env df) ks st)) = file_of k (fst st)) \<and>
         (\<forall>k\<in>set ks. case fst (save_sink L S now env df k fsz) of
             Inr p \<Rightarrow> file_of k (fst (fold (try_sink L S now env df) ks st)) = Some p \<and>
                      p \<in> set (snd (fold (try_sink L S now env df) ks st))
           | Inl e \<Rightarrow> file_of k (fst (fold (try_sink L S now env df) ks st)) = file_of k (fst st) \<and>
                      error_prefix k @ exn_text e
                        \<in> set (errors (fst (fold (try_sink L S now env df) ks st))))"
  using assms
proof (induction ks arbitrary: st)
  case Nil
  then show ?case by simp
next
  case (Cons k ks)
  let ?st1 = "try_sink L S now env df k st"
  let ?R = "fold (try_sink L S now env df) ks ?st1"
  note T = try_sink_props[OF refl[of "try_sink L S now env df k st"]]
  from Cons.prems have d: "distinct ks" and nk: "k \<notin> set ks" by simp_all
  note IH = Cons.IH[OF d, of ?st1]
  have f: "fold (try_sink L S now env df) (k # ks) st = ?R" by simp
  have kk: "case fst (save_sink L S now env df k fsz) of
             Inr p \<Rightarrow> file_of k (fst ?R) = Some p \<and> p \<in> set (snd ?R)
           | Inl e \<Rightarrow> file_of k (fst ?R) = file_of k (fst st) \<and>
                      error_prefix k @ exn_text e \<in> set (errors (fst ?R))"
  proof (cases "fst (save_sink L S now env df k fsz)")
    case (Inl e)
    from T(6)[OF Inl] IH nk show ?thesis unfolding Inl by auto
  next
    case (Inr p)
    from T(5)[OF Inr] IH nk show ?thesis unfolding Inr by auto
  qed
  have others: "\<forall>j\<in>set ks. case fst (save_sink L S now env df j fsz) of
             Inr p \<Rightarrow> file_of j (fst ?R) = Some p \<and> p \<in> set (snd ?R)
           | Inl e \<Rightarrow> file_of j (fst ?R) = file_of j (fst st) \<and>
                      error_prefix j @ exn_text e \<in> set (errors (fst ?R))"
  proof
    fix j assume j: "j \<in> set ks"
    then have "j \<noteq> k" using nk by auto
    from T(4)[OF this] have "file_of j (fst ?st1) = file_of j (fst st)" .
    with IH j show "case fst (save_sink L S now env df j fsz) of
             Inr p \<Rightarrow> file_of j (fst ?R) = Some p \<and> p \<in> set (snd ?R)
           | Inl e \<Rightarrow> file_of j (fst ?R) = file_of j (fst st) \<and>
                      error_prefix j @ exn_text e \<in> set (errors (fst ?R))"
      by (auto split: sum.splits)
  qed
  have unch: "\<forall>j. j \<notin> set (k # ks) \<longrightarrow> file_of j (fst ?R) = file_of j (fst st)"
    using IH T(4) by auto
  show ?case unfolding f
    using IH T(1,2,3) kk others unch by auto
qed

lemma file_of_records_update [simp]: "file_of k (res\<lparr>database_records := x\<rparr>) = file_of k res"
  by (cases k) simp_all

lemma file_of_cloud_update [simp]: "file_of k (res\<lparr>cloud_url := x\<rparr>) = file_of k res"
  by (cases k) simp_all

lemma load_otaku_data_steps:
  "load_otaku_data L S now env F df db_manager cloud fs =
     (let st5 = fold (try_sink L S now env df) all_sinks (empty_result, fs);
          r6 = db_step L S now F df db_manager (fst st5)
      in (cloud_step cloud (fst r6), snd st5, snd r6))"
  by (simp add: load_otaku_data_def all_sinks_def Let_def)

lemma cloud_step_props:
  "file_of k (cloud_step c res) = file_of k res"
  "set (errors res) \<subseteq> set (errors (cloud_step c res))"
  "database_records (cloud_step c res) = database_records res"
  by (auto simp: cloud_step_def split: option.splits sum.splits)

lemma db_step_props:
  "file_of k (fst (db_step L S now F df dbm res)) = file_of k res"
  "set (errors res) \<subseteq> set (errors (fst (db_step L S now F df dbm res)))"
  by (auto simp: db_step_def split: option.splits sum.splits prod.splits)

lemma db_step_Inl:
  assumes "load_to_database L S now F conn df = (Inl e, conn1)"
  shows "snd (db_step L S now F df (Some conn) res) = Some conn1"
    and "database_records (fst (db_step L S now F df (Some conn) res)) = database_records res"
    and "''Error cargando a base de datos: '' @ exn_text e
           \<in> set (errors (fst (db_step L S now F df (Some conn) res)))"
  using assms by (simp_all add: db_step_def)

lemma all_sinks_complete: "k \<in> set all_sinks"
  by (cases k) (simp_all add: all_sinks_def)

lemma file_of_empty: "file_of k empty_result = None"
  by (cases k) (simp_all add: empty_result_def)

lemma load_file_outcome:
  assumes "load_otaku_data L S now env F df db_manager cloud fs = (res, fs', db')"
  shows "case fst (save_sink L S now env df k fs) of
               Inr p \<Rightarrow> file_of k res = Some p \<and> p \<in> set fs'
             | Inl e \<Rightarrow> file_of k res = None \<and> error_prefix k @ exn_text e \<in> set (errors res)"
proof -
  let ?st5 = "fold (try_sink L S now env df) all_sinks (empty_result, fs)"
  let ?r6 = "db_step L S now F df db_manager (fst ?st5)"
  have d: "distinct all_sinks" by (simp add: all_sinks_def)
  note Fo = fold_try_sink[OF d, where st="(empty_result, fs)" and L=L and S=S and now=now
               and env=env and df=df and fsz=fs]
  from assms have res: "res = cloud_step cloud (fst ?r6)" and fs': "fs' = snd ?st5"
    by (simp_all add: load_otaku_data_steps Let_def)
  have fo: "file_of k res = file_of k (fst ?st5)"
    by (simp add: res cloud_step_props db_step_props)
  have er: "set (errors (fst ?st5)) \<subseteq> set (errors res)"
    unfolding res using cloud_step_props(2) db_step_props(2) by blast
  from Fo all_sinks_complete[of k]
  have "case fst (save_sink L S now env df k fs) of
             Inr p \<Rightarrow> file_of k (fst ?st5) = Some p \<and> p \<in> set (snd ?st5)
           | Inl e \<Rightarrow> file_of k (fst ?st5) = file_of k (fst (empty_result, fs)) \<and>
                      error_prefix k @ exn_text e \<in> set (errors (fst ?st5))"
    by blast
  then show ?thesis
    using er by (auto simp: fo fs' file_of_empty split: sum.splits)
qed

lemma load_db_outcome:
  assumes "load_otaku_data L S now env F df db_manager cloud fs = (res, fs', db')"
  shows "db' = snd (db_step L S now F df db_manager
                 (fst (fold (try_sink L S now env df) all_sinks (empty_result, fs))))"
    and "database_records res = database_records (fst (db_step L S now F df db_manager
                 (fst (fold (try_sink L S now env df) all_sinks (empty_result, fs)))))"
    and "set (errors (fst (db_step L S now F df db_manager
                 (fst (fold (try_sink L S now env df) all_sinks (empty_result, fs))))))
           \<subseteq> set (errors res)"
    and "database_records (fst (fold (try_sink L S now env df) all_sinks (empty_result, fs))) = 0"
proof -
  let ?st5 = "fold (try_sink L S now env df) all_sinks (empty_result, fs)"
  let ?r6 = "db_step L S now F df db_manager (fst ?st5)"
  have d: "distinct all_sinks" by (simp add: all_sinks_def)
  note Fo = fold_try_sink[OF d, where st="(empty_result, fs)" and L=L and S=S and now=now
               and env=env and df=df and fsz=fs]
  from assms have res: "res = cloud_step cloud (fst ?r6)" and db': "db' = snd ?r6"
    by (simp_all add: load_otaku_data_steps Let_def)
  show "db' = snd ?r6" by (rule db')
  show "database_records res = database_records (fst ?r6)" by (simp add: res cloud_step_props)
  show "set (errors (fst ?r6)) \<subseteq> set (errors res)" unfolding res by (rule cloud_step_props)
  show "database_records (fst ?st5) = 0" using Fo by (simp add: empty_result_def)
qed

text \<open>
  Claim C6. In every load call each of the five file writers ends as it would alone:
  when its write succeeds its path is recorded and the file exists, and when it raises
  its message is appended to \<open>errors\<close> and its entry stays empty, whatever the other
  writers do. When the database load raises, the rows committed to the table are those
  of before the call, the message of the exception is in \<open>errors\<close>, the insert count
  stays 0, and the file entries are as said. The bulk insert that raises leaves the
  committed rows as they were, and leaves no pending row when the rollback itself went
  through.
\<close>

theorem load_isolates_sink_failures_and_rolls_back:
  assumes "load_otaku_data L S now env F df db_manager cloud fs = (res, fs', db')"
  shows "(\<forall>k. case fst (save_sink L S now env df k fs) of
               Inr p \<Rightarrow> file_of k res = Some p \<and> p \<in> set fs'
             | Inl e \<Rightarrow> file_of k res = None \<and> error_prefix k @ exn_text e \<in> set (errors res)) \<and>
         (\<forall>conn e conn1.
            db_manager = Some conn \<and> load_to_database L S now F conn df = (Inl e, conn1) \<longrightarrow>
              db' = Some conn1 \<and> committed conn1 = committed conn \<and>
              database_records res = 0 \<and>
              ''Error cargando a base de datos: '' @ exn_text e \<in> set (errors res)) \<and>
         (\<forall>bsz conn recs e conn1.
            insertar_personas_transformadas_bulk F bsz conn recs = (Inl e, conn1) \<longrightarrow>
              committed conn1 = committed conn \<and> (\<not> F (ops conn1 - 1) \<longrightarrow> pending conn1 = []))"
proof (intro conjI allI impI)
  fix k
  show "case fst (save_sink L S now env df k fs) of
               Inr p \<Rightarrow> file_of k res = Some p \<and> p \<in> set fs'
             | Inl e \<Rightarrow> file_of k res = None \<and> error_prefix k @ exn_text e \<in> set (errors res)"
    by (rule load_file_outcome[OF assms])
next
  fix conn e conn1
  assume a: "db_manager = Some conn \<and> load_to_database L S now F conn df = (Inl e, conn1)"
  then have l: "load_to_database L S now F conn df = (Inl e, conn1)" and m: "db_manager = Some conn"
    by simp_all
  note O = load_db_outcome[OF assms]
  note D = db_step_Inl[OF l]
  show "db' = Some conn1" using D(1) O(1) by (simp add: m)
  show "committed conn1 = committed conn" using load_to_database_Inl[OF l] .
  show "database_records res = 0" using D(2) O(2,4) by (simp add: m)
  show "''Error cargando a base de datos: '' @ exn_text e \<in> set (errors res)"
    using D(3) O(3) unfolding m by blast
next
  fix bsz conn recs e conn1
  assume b: "insertar_personas_transformadas_bulk F bsz conn recs = (Inl e, conn1)"
  from bulk_Inl[OF b] show "committed conn1 = committed conn" by simp
  assume "\<not> F (ops conn1 - 1)"
  with bulk_Inl[OF b] show "pending conn1 = []" by simp
qed

lemma visible_ops [simp]: "visible (s\<lparr>ops := n\<rparr>) = visible s"
  by (simp add: visible_def)

lemma verificar_NF:
  "verificar_duplicado (\<lambda>n. False) s k =
     ((\<exists>r\<in>set (visible s). key_of r = k), s\<lparr>ops := ops s + 2\<rparr>)"
  by (auto simp: verificar_duplicado_def db_op_def count_matching_def filter_empty_conv)

lemma prepare_batch_NF:
  "\<exists>d s'. prepare_batch (\<lambda>n. False) s b =
            (filter (\<lambda>r. key_of r \<notin> key_of ` set (visible s)) b, d, s')
          \<and> committed s' = committed s \<and> pending s' = pending s"
proof (induction b arbitrary: s)
  case Nil
  then show ?case by simp
next
  case (Cons r rs)
  let ?s1 = "s\<lparr>ops := ops s + 2\<rparr>"
  from Cons.IH[of ?s1] obtain d s' where
    p: "prepare_batch (\<lambda>n. False) ?s1 rs =
          (filter (\<lambda>r. key_of r \<notin> key_of ` set (visible s)) rs, d, s')"
    and c: "committed s' = committed s" "pending s' = pending s"
    by auto
  show ?case
  proof (cases "key_of r \<in> key_of ` set (visible s)")
    case True
    then have "verificar_duplicado (\<lambda>n. False) s (key_of r) = (True, ?s1)"
      by (auto simp: verificar_NF image_iff)
    then show ?thesis using p c True by simp
  next
    case False
    then have "verificar_duplicado (\<lambda>n. False) s (key_of r) = (False, ?s1)"
      by (auto simp: verificar_NF image_iff)
    then show ?thesis using p c False by simp
  qed
qed

lemma visible_mono:
  "committed s' = committed s \<Longrightarrow> set (pending s) \<subseteq> set (pending s') \<Longrightarrow>
     set (visible s) \<subseteq> set (visible s')"
  by (auto simp: visible_def)

lemma run_batches_NF_covers:
  "\<exists>m s'. run_batches (\<lambda>n. False) s bs n = (Inr m, s') \<and> committed s' = committed s \<and>
       set (pending s) \<subseteq> set (pending s') \<and>
       (\<forall>r\<in>set (concat bs). key_of r \<in> key_of ` set (visible s'))"
proof (induction bs arbitrary: s n)
  case Nil
  then show ?case by simp
next
  case (Cons b bs)
  let ?bd = "filter (\<lambda>r. key_of r \<notin> key_of ` set (visible s)) b"
  from prepare_batch_NF[of s b] obtain d s1 where
    p: "prepare_batch (\<lambda>n. False) s b = (?bd, d, s1)"
    and c1: "committed s1 = committed s" "pending s1 = pending s" by blast
  have v1: "visible s1 = visible s" using c1 by (simp add: visible_def)
  show ?case
  proof (cases "?bd = []")
    case True
    then have allvis: "\<forall>r\<in>set b. key_of r \<in> key_of ` set (visible s)"
      by (auto simp: filter_empty_conv)
    from Cons.IH[of s1 n] obtain m s' where
      r: "run_batches (\<lambda>n. False) s1 bs n = (Inr m, s')" and
      c: "committed s' = committed s1" "set (pending s1) \<subseteq> set (pending s')" and
      k: "\<forall>r\<in>set (concat bs). key_of r \<in> key_of ` set (visible s')" by blast
    have "set (visible s) \<subseteq> set (visible s')"
      using visible_mono[of s' s1] c v1 by simp
    then have "\<forall>r\<in>set b. key_of r \<in> key_of ` set (visible s')" using allvis by blast
    with r c k c1 True p show ?thesis by auto
  next
    case False
    let ?s2 = "s1\<lparr>ops := ops s1 + 1, pending := pending s1 @ ?bd\<rparr>"
    have e: "executemany (\<lambda>n. False) s1 ?bd = (Inr (length ?bd), ?s2)"
      by (simp add: executemany_def db_op_def)
    from Cons.IH[of ?s2 "n + length ?bd"] obtain m s' where
      r: "run_batches (\<lambda>n. False) ?s2 bs (n + length ?bd) = (Inr m, s')" and
      c: "committed s' = committed ?s2" "set (pending ?s2) \<subseteq> set (pending s')" and
      k: "\<forall>r\<in>set (concat bs). key_of r \<in> key_of ` set (visible s')" by blast
    have "\<forall>r\<in>set b. key_of r \<in> key_of ` set (visible ?s2)"
      using v1 by (auto simp: visible_def c1)
    moreover have "set (visible ?s2) \<subseteq> set (visible s')"
      using visible_mono[of s' ?s2] c by simp
    ultimately have "\<forall>r\<in>set b. key_of r \<in> key_of ` set (visible s')" by blast
    with r c k c1 False p e show ?thesis by auto
  qed
qed

lemma run_batches_NF_all_dups:
  assumes "\<forall>r\<in>set (concat bs). key_of r \<in> key_of ` set (visible s)"
  shows "\<exists>s'. run_batches (\<lambda>n. False) s bs n = (Inr n, s') \<and> committed s' = committed s \<and>
          pending s' = pending s"
  using assms
proof (induction bs arbitrary: s)
  case Nil
  then show ?case by simp
next
  case (Cons b bs)
  let ?bd = "filter (\<lambda>r. key_of r \<notin> key_of ` set (visible s)) b"
  from prepare_batch_NF[of s b] obtain d s1 where
    p: "prepare_batch (\<lambda>n. False) s b = (?bd, d, s1)"
    and c1: "committed s1 = committed s" "pending s1 = pending s" by blast
  have v1: "visible s1 = visible s" using c1 by (simp add: visible_def)
  have e: "?bd = []" using Cons.prems by (auto simp: filter_empty_conv)
  have "\<forall>r\<in>set (concat bs). key_of r \<in> key_of ` set (visible s1)"
    using Cons.prems v1 by simp
  from Cons.IH[OF this] obtain s' where
    "run_batches (\<lambda>n. False) s1 bs n = (Inr n, s')" "committed s' = committed s1"
    "pending s' = pending s1" by blast
  with p e c1 show ?case by simp
qed

lemma concat_chunks: "0 < n \<Longrightarrow> concat (chunks n xs) = xs"
proof (induction n xs rule: chunks.induct)
  case (1 n xs)
  show ?case
  proof (cases "xs = []")
    case True
    then show ?thesis by (simp add: chunks.simps[of n "[]"])
  next
    case False
    with 1 show ?thesis by (simp add: chunks.simps[of n xs])
  qed
qed

lemma bulk_NF_first:
  assumes "0 < bsz" "recs \<noteq> []"
  shows "\<exists>m s'. insertar_personas_transformadas_bulk (\<lambda>n. False) bsz s recs = (Inr m, s') \<and>
           pending s' = [] \<and> (\<forall>r\<in>set recs. key_of r \<in> key_of ` set (committed s'))"
proof -
  let ?s1 = "s\<lparr>ops := ops s + 1\<rparr>"
  from run_batches_NF_covers[of ?s1 "chunks bsz recs" 0] obtain m s2 where
    r: "run_batches (\<lambda>n. False) ?s1 (chunks bsz recs) 0 = (Inr m, s2)" and
    k: "\<forall>r\<in>set (concat (chunks bsz recs)). key_of r \<in> key_of ` set (visible s2)" by blast
  let ?s3 = "s2\<lparr>ops := ops s2 + 1, committed := committed s2 @ pending s2, pending := []\<rparr>"
  have c: "commit (\<lambda>n. False) s2 = (Inr (), ?s3)" by (simp add: commit_def db_op_def)
  have b: "insertar_personas_transformadas_bulk (\<lambda>n. False) bsz s recs = (Inr m, ?s3)"
    using assms r c by (simp add: insertar_personas_transformadas_bulk_def bulk_body_def db_op_def)
  have "\<forall>r\<in>set recs. key_of r \<in> key_of ` set (committed ?s3)"
    using k assms(1) by (simp add: concat_chunks visible_def)
  with b show ?thesis by auto
qed

lemma bulk_NF_second:
  assumes "0 < bsz" "pending s = []" "\<forall>r\<in>set recs. key_of r \<in> key_of ` set (committed s)"
  shows "\<exists>s'. insertar_personas_transformadas_bulk (\<lambda>n. False) bsz s recs = (Inr 0, s') \<and>
           committed s' = committed s \<and> pending s' = []"
proof (cases "recs = []")
  case True
  then show ?thesis using assms
    by (simp add: insertar_personas_transformadas_bulk_def bulk_body_def)
next
  case False
  let ?s1 = "s\<lparr>ops := ops s + 1\<rparr>"
  have "\<forall>r\<in>set (concat (chunks bsz recs)). key_of r \<in> key_of ` set (visible ?s1)"
    using assms by (simp add: concat_chunks visible_def)
  from run_batches_NF_all_dups[OF this, of 0] obtain s2 where
    r: "run_batches (\<lambda>n. False) ?s1 (chunks bsz recs) 0 = (Inr 0, s2)" and
    c2: "committed s2 = committed ?s1" "pending s2 = pending ?s1" by blast
  let ?s3 = "s2\<lparr>ops := ops s2 + 1, committed := committed s2 @ pending s2, pending := []\<rparr>"
  have c: "commit (\<lambda>n. False) s2 = (Inr (), ?s3)" by (simp add: commit_def db_op_def)
  have b: "insertar_personas_transformadas_bulk (\<lambda>n. False) bsz s recs = (Inr 0, ?s3)"
    using assms False r c by (simp add: insertar_personas_transformadas_bulk_def bulk_body_def db_op_def)
  have "committed ?s3 = committed s" using c2 assms(2) by simp
  with b show ?thesis by auto
qed

lemma of_char_digit: "(of_char (digit a) :: nat) = 48 + a mod 10"
proof -
  have la: "48 + a mod 10 < 256"
    by (simp add: less_trans[OF mod_less_divisor])
  show ?thesis unfolding digit_def by (simp only: of_char_of mod_less[OF la])
qed

lemma digit_eq_iff: "digit a = digit b \<longleftrightarrow> a mod 10 = b mod 10"
proof
  assume "digit a = digit b"
  then have "(of_char (digit a) :: nat) = of_char (digit b)" by simp
  then show "a mod 10 = b mod 10" by (simp only: of_char_digit add_left_cancel)
next
  assume "a mod 10 = b mod 10"
  then show "digit a = digit b" by (simp only: digit_def)
qed

lemma div_mod_10_eq: "x div 10 = y div 10 \<Longrightarrow> x mod 10 = y mod 10 \<Longrightarrow> x = (y::nat)"
  by (metis div_mult_mod_eq)

lemma two_digits:
  assumes "a < 100" "b < 100" "(a div 10) mod 10 = (b div 10) mod 10" "a mod 10 = b mod 10"
  shows "a = (b::nat)"
proof -
  have "a div 10 < 10" "b div 10 < 10" using assms(1,2) by simp_all
  then have "a div 10 = b div 10" using assms(3) by simp
  then show ?thesis using assms(4) by (rule div_mod_10_eq)
qed

lemma pad2_eq_iff: "a < 100 \<Longrightarrow> b < 100 \<Longrightarrow> pad2 a = pad2 b \<longleftrightarrow> a = b"
  unfolding pad2_def using two_digits[of a b] by (auto simp: digit_eq_iff)

lemma four_digits:
  assumes "a < 10000" "b < 10000" "(a div 1000) mod 10 = (b div 1000) mod 10"
    "(a div 100) mod 10 = (b div 100) mod 10" "(a div 10) mod 10 = (b div 10) mod 10"
    "a mod 10 = b mod 10"
  shows "a = (b::nat)"
proof -
  have "a div 1000 < 10" "b div 1000 < 10" using assms(1,2) by simp_all
  then have k: "a div 1000 = b div 1000" using assms(3) by simp
  have "a div 100 div 10 = a div 1000" "b div 100 div 10 = b div 1000"
    by (simp_all add: div_mult2_eq[symmetric])
  then have "a div 100 div 10 = b div 100 div 10" using k by simp
  then have h: "a div 100 = b div 100" using assms(4) by (rule div_mod_10_eq)
  have "a div 10 div 10 = a div 100" "b div 10 div 10 = b div 100"
    by (simp_all add: div_mult2_eq[symmetric])
  then have "a div 10 div 10 = b div 10 div 10" using h by simp
  then have "a div 10 = b div 10" using assms(5) by (rule div_mod_10_eq)
  then show ?thesis using assms(6) by (rule div_mod_10_eq)
qed

lemma pad4_eq_iff: "a < 10000 \<Longrightarrow> b < 10000 \<Longrightarrow> pad4 a = pad4 b \<longleftrightarrow> a = b"
  unfolding pad4_def using four_digits[of a b] by (auto simp: digit_eq_iff)

lemma length_pad [simp]: "length (pad2 n) = 2" "length (pad4 n) = 4"
  by (simp_all add: pad2_def pad4_def)

lemma timestamp_eq_iff:
  assumes "valid_time t1" "valid_time t2"
  shows "get_timestamp_for_filename t1 = get_timestamp_for_filename t2 \<longleftrightarrow> same_second t1 t2"
  using assms
  by (simp add: get_timestamp_for_filename_def same_second_def valid_time_def
        pad2_eq_iff pad4_eq_iff)

lemma file_path_eq_iff:
  "file_path d k t1 = file_path d k t2 \<longleftrightarrow>
     get_timestamp_for_filename t1 = get_timestamp_for_filename t2"
  by (cases k) simp_all

lemma save_sink_Inr_path:
  "fst (save_sink L S now env df k fs) = Inr p \<Longrightarrow>
     p = file_path (output_dir env) k (time_at env k)"
  by (cases k) (auto simp: write_file_def Let_def split: option.splits sum.splits if_splits)

lemma load_file_Some:
  assumes "load_otaku_data L S now env F df db_manager cloud fs = (res, fs', db')"
      and "file_of k res = Some p"
  shows "p = file_path (output_dir env) k (time_at env k)"
proof (cases "fst (save_sink L S now env df k fs)")
  case (Inl e)
  with load_file_outcome[OF assms(1), of k] assms(2) show ?thesis by simp
next
  case (Inr q)
  with load_file_outcome[OF assms(1), of k] assms(2) have "q = p" by simp
  with save_sink_Inr_path[OF Inr] show ?thesis by simp
qed

lemma prepare_record_now:
  "prepare_record L S now df r =
     map_sum id (\<lambda>x. x\<lparr>fecha_procesamiento := fecha_of S now df r\<rparr>)
       (prepare_record L S now' df r)"
  by (simp add: prepare_record_def split: sum.splits)

lemma key_of_fecha [simp]: "key_of (x\<lparr>fecha_procesamiento := f\<rparr>) = key_of x"
  by (simp add: key_of_def)

lemma prepare_rows_now:
  "case prepare_rows L S now df rs of
     Inl e \<Rightarrow> prepare_rows L S now' df rs = Inl e
   | Inr xs \<Rightarrow> (\<exists>ys. prepare_rows L S now' df rs = Inr ys \<and> map key_of ys = map key_of xs)"
proof (induction rs)
  case Nil
  then show ?case by simp
next
  case (Cons r rs)
  show ?case
  proof (cases "prepare_record L S now' df r")
    case (Inl e)
    then show ?thesis using prepare_record_now[where L=L and S=S and df=df and r=r and now=now and now'=now'] by simp
  next
    case (Inr x)
    then have a: "prepare_record L S now df r = Inr (x\<lparr>fecha_procesamiento := fecha_of S now df r\<rparr>)"
      using prepare_record_now[where L=L and S=S and df=df and r=r and now=now and now'=now'] by simp
    show ?thesis
    proof (cases "prepare_rows L S now df rs")
      case (Inl e)
      with Cons.IH a Inr show ?thesis by simp
    next
      case (Inr xs)
      with Cons.IH obtain ys where "prepare_rows L S now' df rs = Inr ys"
        "map key_of ys = map key_of xs" by auto
      with a Inr \<open>prepare_record L S now' df r = Inr x\<close> show ?thesis by simp
    qed
  qed
qed

lemma load_twice_db:
  assumes "load_to_database L S now1 (\<lambda>n. False) conn df = (r1, conn1)"
      and "load_to_database L S now2 (\<lambda>n. False) conn1 df = (r2, conn2)"
  shows "committed conn2 = committed conn1 \<and> (r2 = Inr 0 \<or> (isl r1 \<and> isl r2))"
proof (cases "prepare_rows L S now1 df (rows df)")
  case (Inl e)
  have "prepare_rows L S now2 df (rows df) = Inl e"
    using prepare_rows_now[where L=L and S=S and df=df and now=now1 and now'=now2 and rs="rows df"]
    unfolding Inl by simp
  with Inl assms show ?thesis
    by (auto simp: load_to_database_def prepare_dataframe_for_database_def)
next
  case (Inr xs)
  have "\<exists>ys. prepare_rows L S now2 df (rows df) = Inr ys \<and> map key_of ys = map key_of xs"
    using prepare_rows_now[where L=L and S=S and df=df and now=now1 and now'=now2 and rs="rows df"]
    unfolding Inr by simp
  then obtain ys where
    ys: "prepare_rows L S now2 df (rows df) = Inr ys" "map key_of ys = map key_of xs" by blast
  from assms(1) Inr have b1: "insertar_personas_transformadas_bulk (\<lambda>n. False) 1000 conn xs = (r1, conn1)"
    by (simp add: load_to_database_def prepare_dataframe_for_database_def
          insertar_personas_transformadas_def)
  from assms(2) ys(1) have b2: "insertar_personas_transformadas_bulk (\<lambda>n. False) 1000 conn1 ys = (r2, conn2)"
    by (simp add: load_to_database_def prepare_dataframe_for_database_def
          insertar_personas_transformadas_def)
  show ?thesis
  proof (cases "xs = []")
    case True
    then have "ys = []" using ys(2) by simp
    with b2 show ?thesis
      by (simp add: insertar_personas_transformadas_bulk_def bulk_body_def)
  next
    case False
    have pos: "0 < (1000::nat)" by simp
    from bulk_NF_first[OF pos False, where s=conn] obtain m s' where
      f: "insertar_personas_transformadas_bulk (\<lambda>n. False) 1000 conn xs = (Inr m, s')"
      and p': "pending s' = []"
      and k': "\<forall>r\<in>set xs. key_of r \<in> key_of ` set (committed s')" by blast
    have "(Inr m, s') = (r1, conn1)" using f b1 by (rule trans[OF sym])
    then have "s' = conn1" by (rule Pair_inject)
    with p' k' have p: "pending conn1 = []"
      and k: "\<forall>r\<in>set xs. key_of r \<in> key_of ` set (committed conn1)" by simp_all
    have "set (map key_of ys) = set (map key_of xs)" by (simp only: ys(2))
    then have eq: "key_of ` set ys = key_of ` set xs" by (simp only: set_map)
    have ky: "\<forall>r\<in>set ys. key_of r \<in> key_of ` set (committed conn1)"
    proof
      fix r assume "r \<in> set ys"
      then have "key_of r \<in> key_of ` set ys" by (rule imageI)
      then have "key_of r \<in> key_of ` set xs" by (simp only: eq)
      then obtain x where x: "x \<in> set xs" "key_of r = key_of x" by (rule imageE)
      from k x(1) have "key_of x \<in> key_of ` set (committed conn1)" by (rule bspec)
      then show "key_of r \<in> key_of ` set (committed conn1)" by (simp only: x(2))
    qed
    from bulk_NF_second[OF pos p ky] obtain s'' where
      g: "insertar_personas_transformadas_bulk (\<lambda>n. False) 1000 conn1 ys = (Inr 0, s'')"
      and c: "committed s'' = committed conn1" by blast
    have "(Inr 0, s'') = (r2, conn2)" using g b2 by (rule trans[OF sym])
    then have "r2 = Inr 0" "s'' = conn2" by simp_all
    with c show ?thesis by simp
  qed
qed

lemma load_db_Some:
  assumes "load_otaku_data L S now env F df (Some conn) cloud fs = (res, fs', db')"
  shows "db' = Some (snd (load_to_database L S now F conn df))"
    and "database_records res = (case fst (load_to_database L S now F conn df) of Inr n \<Rightarrow> n | Inl e \<Rightarrow> 0)"
proof -
  note O = load_db_outcome[OF assms]
  obtain r c where l: "load_to_database L S now F conn df = (r, c)" by fastforce
  show "db' = Some (snd (load_to_database L S now F conn df))"
    using O(1) l by (cases r) (simp_all add: db_step_def)
  show "database_records res = (case fst (load_to_database L S now F conn df) of Inr n \<Rightarrow> n | Inl e \<Rightarrow> 0)"
    using O(2,4) l by (cases r) (simp_all add: db_step_def)
qed

text \<open>
  Claim C5, as amended. Two loads of the same frame through the same connection, with no
  database operation failing: the second load commits no row and reports 0 inserted
  records (its duplicate checks find every record; unless preparing the records raises,
  it ends without an exception). For each file writer that succeeds in both loads, the
  two paths are the same exactly when the two clock readings give the same timestamp,
  and for calendar values that is exactly when they fall in the same second.
\<close>

theorem second_load_inserts_nothing_names_follow_clock:
  assumes "load_otaku_data L S now1 env1 (\<lambda>n. False) df (Some conn) cloud1 fs = (res1, fs1, db1)"
      and "load_otaku_data L S now2 env2 (\<lambda>n. False) df db1 cloud2 fs1 = (res2, fs2, db2)"
      and "output_dir env2 = output_dir env1"
  shows "(\<exists>conn1 conn2. db1 = Some conn1 \<and> db2 = Some conn2 \<and>
            committed conn2 = committed conn1 \<and>
            (fst (load_to_database L S now2 (\<lambda>n. False) conn1 df) = Inr 0 \<or>
             isl (prepare_dataframe_for_database L S now2 df))) \<and>
         database_records res2 = 0 \<and>
         (\<forall>k p1 p2. file_of k res1 = Some p1 \<and> file_of k res2 = Some p2 \<longrightarrow>
            (p1 = p2 \<longleftrightarrow> get_timestamp_for_filename (time_at env1 k)
                            = get_timestamp_for_filename (time_at env2 k))) \<and>
         (\<forall>t1 t2. valid_time t1 \<and> valid_time t2 \<longrightarrow>
            (get_timestamp_for_filename t1 = get_timestamp_for_filename t2 \<longleftrightarrow> same_second t1 t2))"
proof -
  let ?l1 = "load_to_database L S now1 (\<lambda>n. False) conn df"
  let ?c1 = "snd ?l1"
  let ?l2 = "load_to_database L S now2 (\<lambda>n. False) ?c1 df"
  note A = load_db_Some[OF assms(1)]
  have d1: "db1 = Some ?c1" by (rule A(1))
  note B = load_db_Some[OF assms(2)[unfolded d1]]
  have l1: "?l1 = (fst ?l1, ?c1)" by simp
  have l2: "?l2 = (fst ?l2, snd ?l2)" by simp
  note T = load_twice_db[OF l1 l2]
  have c: "committed (snd ?l2) = committed ?c1" using T by simp
  have r: "fst ?l2 = Inr 0 \<or> isl (fst ?l2)" using T by blast
  have rec: "database_records res2 = 0"
    using B(2) r by (auto simp: isl_def)
  have pr: "fst ?l2 = Inr 0 \<or> isl (prepare_dataframe_for_database L S now2 df)"
  proof (cases "prepare_dataframe_for_database L S now2 df")
    case (Inl e)
    then show ?thesis by simp
  next
    case (Inr ys)
    have p2: "prepare_rows L S now2 df (rows df) = Inr ys"
      using Inr by (simp add: prepare_dataframe_for_database_def)
    have "\<not> isl (prepare_rows L S now1 df (rows df))"
      using prepare_rows_now[where L=L and S=S and df=df and now=now1 and now'=now2 and rs="rows df"] p2
      by (cases "prepare_rows L S now1 df (rows df)") simp_all
    then obtain xs where p1: "prepare_rows L S now1 df (rows df) = Inr xs"
      by (cases "prepare_rows L S now1 df (rows df)") simp_all
    have pos: "0 < (1000::nat)" by simp
    have "\<not> isl (fst ?l1)"
    proof (cases "xs = []")
      case True
      then show ?thesis using p1
        by (simp add: load_to_database_def prepare_dataframe_for_database_def
              insertar_personas_transformadas_def insertar_personas_transformadas_bulk_def
              bulk_body_def)
    next
      case False
      from bulk_NF_first[OF pos False, where s=conn] obtain m s' where
        "insertar_personas_transformadas_bulk (\<lambda>n. False) 1000 conn xs = (Inr m, s')" by blast
      then show ?thesis using p1
        by (simp add: load_to_database_def prepare_dataframe_for_database_def
              insertar_personas_transformadas_def)
    qed
    with T show ?thesis by blast
  qed
  have files: "\<forall>k p1 p2. file_of k res1 = Some p1 \<and> file_of k res2 = Some p2 \<longrightarrow>
            (p1 = p2 \<longleftrightarrow> get_timestamp_for_filename (time_at env1 k)
                            = get_timestamp_for_filename (time_at env2 k))"
  proof (intro allI impI)
    fix k p1 p2
    assume a: "file_of k res1 = Some p1 \<and> file_of k res2 = Some p2"
    have "p1 = file_path (output_dir env1) k (time_at env1 k)"
      using load_file_Some[OF assms(1)] a by blast
    moreover have "p2 = file_path (output_dir env1) k (time_at env2 k)"
      using load_file_Some[OF assms(2)] a assms(3) by simp
    ultimately show "p1 = p2 \<longleftrightarrow> get_timestamp_for_filename (time_at env1 k)
                            = get_timestamp_for_filename (time_at env2 k)"
      by (simp only: file_path_eq_iff)
  qed
  have ts: "\<forall>t1 t2. valid_time t1 \<and> valid_time t2 \<longrightarrow>
            (get_timestamp_for_filename t1 = get_timestamp_for_filename t2 \<longleftrightarrow> same_second t1 t2)"
    using timestamp_eq_iff by blast
  have ex: "\<exists>conn1 conn2. db1 = Some conn1 \<and> db2 = Some conn2 \<and>
            committed conn2 = committed conn1 \<and>
            (fst (load_to_database L S now2 (\<lambda>n. False) conn1 df) = Inr 0 \<or>
             isl (prepare_dataframe_for_database L S now2 df))"
    using d1 B(1) c pr by blast
  from ex rec files ts show ?thesis by (intro conjI)
qed

lemma noon_stamp: "get_timestamp_for_filename noon = ''20250101_120000''"
  by code_simp

lemma stamp_ignores_microsecond:
  "get_timestamp_for_filename (t\<lparr>microsecond := m\<rparr>) = get_timestamp_for_filename t"
  by (simp add: get_timestamp_for_filename_def)

lemma later_stamp: "get_timestamp_for_filename (noon\<lparr>microsecond := 500000\<rparr>) = ''20250101_120000''"
  by (simp only: stamp_ignores_microsecond noon_stamp)

lemma run_triple: "x = (fst x, fst (snd x), snd (snd x))"
  by simp

lemma json_path_at:
  assumes "load_otaku_data L S now (env_at t) F df db cloud fs = (res, fs', db')"
  shows "json_file res = Some (''data/output/transformed_data_'' @ get_timestamp_for_filename t @ ''.json'')"
proof -
  have "fst (save_sink L S now (env_at t) df JsonSink fs)
          = Inr (''data/output/transformed_data_'' @ get_timestamp_for_filename t @ ''.json'')"
    by (simp add: write_file_def env_at_def Let_def)
  with load_file_outcome[OF assms, of JsonSink] show ?thesis by simp
qed

text \<open>
  Claim C5 as stated fails in its last part: two loads whose clock readings differ only
  within one second write the JSON artifact under one and the same name.
\<close>

theorem same_second_same_file_counterexample:
  "json_file (fst first_run) = Some ''data/output/transformed_data_20250101_120000.json'' \<and>
   json_file (fst second_run) = Some ''data/output/transformed_data_20250101_120000.json'' \<and>
   microsecond (time_at (env_at noon) JsonSink) = 0 \<and>
   microsecond (time_at (env_at (noon\<lparr>microsecond := 500000\<rparr>)) JsonSink) = 500000"
proof -
  have 1: "json_file (fst first_run) = Some ''data/output/transformed_data_20250101_120000.json''"
    using json_path_at[OF run_triple[of first_run, unfolded first_run_def]]
    by (simp add: noon_stamp first_run_def)
  have 2: "json_file (fst second_run) = Some ''data/output/transformed_data_20250101_120000.json''"
    using json_path_at[OF run_triple[of second_run, unfolded second_run_def]]
    by (simp add: later_stamp second_run_def)
  show ?thesis using 1 2 by (simp add: env_at_def noon_def)
qed

lemma ana_out_cells:
  "cellv ana_out ''nombre'' = Str ''Ana''" "cellv ana_out ''edad_anos'' = Num 25"
  "cellv ana_out ''edad_lustros'' = Num 5" "cellv ana_out ''genero_es'' = Str ''Femenino''"
  "cellv ana_out ''ingreso_usd'' = Num 1000" "cellv ana_out ''ingreso_cop'' = Num 4000000"
  "cellv ana_out ''trm_utilizada'' = Num 4000" "cellv ana_out ''enfermedad_original'' = Str ''no''"
  "cellv ana_out ''enfermedad_es'' = Str ''No''"
  "cellv ana_out ''fecha_procesamiento'' = Str ''2025-01-01 00:00:00''"
  by (simp_all add: ana_out_def cellv_def)

lemma out_df_picks:
  "pick out_df r ''Name'' ''nombre'' = Some (cellv r ''nombre'')"
  "pick out_df r ''age'' ''edad_anos'' = Some (cellv r ''edad_anos'')"
  "pick out_df r ''Age Lustrum'' ''edad_lustros'' = Some (cellv r ''edad_lustros'')"
  "pick out_df r ''Gender'' ''gender'' = None"
  "pick out_df r ''Gender Es'' ''genero_es'' = Some (cellv r ''genero_es'')"
  "pick out_df r ''income'' ''ingreso_usd'' = Some (cellv r ''ingreso_usd'')"
  "pick out_df r ''Income Cop'' ''ingreso_cop'' = Some (cellv r ''ingreso_cop'')"
  "pick out_df r ''Trm'' ''trm_utilizada'' = Some (cellv r ''trm_utilizada'')"
  "pick out_df r ''Illness'' ''enfermedad_original'' = Some (cellv r ''enfermedad_original'')"
  "pick out_df r ''Illness Es'' ''enfermedad_es'' = Some (cellv r ''enfermedad_es'')"
  "pick out_df r ''Processing Date'' ''fecha_procesamiento'' = Some (cellv r ''fecha_procesamiento'')"
  by (simp_all add: pick_def out_df_def desired_order_def)

lemma prepare_out_df:
  "prepare_dataframe_for_database sample_lib sample_std now out_df = Inr [rec_ana]"
proof -
  have "prepare_record sample_lib sample_std now out_df ana_out = Inr rec_ana"
    by (simp add: prepare_record_def pick_int_def pick_float_def pick_str_def fecha_of_def
          out_df_picks ana_out_cells rec_ana_def sample_std_def Let_def)
  then show ?thesis
    by (simp add: prepare_dataframe_for_database_def out_df_def)
qed

lemma first_load_db:
  "load_to_database sample_lib sample_std now (\<lambda>n. False) empty_conn out_df
     = (Inr 1, \<lparr>committed = [rec_ana], pending = [], ops = 5\<rparr>)"
proof -
  have c: "chunks 1000 [rec_ana] = [[rec_ana]]" by (simp add: chunks_single)
  show ?thesis
    by (simp add: load_to_database_def prepare_out_df insertar_personas_transformadas_def
          insertar_personas_transformadas_bulk_def bulk_body_def c db_op_def
          verificar_duplicado_def count_matching_def visible_def executemany_def commit_def
          empty_conn_def)
qed

theorem second_load_witness:
  "database_records (fst first_run) = 1 \<and>
   snd (snd first_run) = Some \<lparr>committed = [rec_ana], pending = [], ops = 5\<rparr> \<and>
   database_records (fst second_run) = 0 \<and>
   (\<exists>c. snd (snd second_run) = Some c \<and> committed c = [rec_ana])"
proof -
  note r1 = run_triple[of first_run, unfolded first_run_def]
  note A = load_db_Some[OF r1]
  have db1: "snd (snd first_run) = Some \<lparr>committed = [rec_ana], pending = [], ops = 5\<rparr>"
    using A(1) by (simp add: first_run_def first_load_db)
  have n1: "database_records (fst first_run) = 1"
    using A(2) by (simp add: first_run_def first_load_db)
  have r1': "load_otaku_data sample_lib sample_std sample_now (env_at noon) (\<lambda>n. False) out_df
       (Some empty_conn) None [] = (fst first_run, fst (snd first_run), snd (snd first_run))"
    by (simp add: first_run_def)
  have r2': "load_otaku_data sample_lib sample_std sample_now
       (env_at (noon\<lparr>microsecond := 500000\<rparr>)) (\<lambda>n. False) out_df (snd (snd first_run)) None
       (fst (snd first_run)) = (fst second_run, fst (snd second_run), snd (snd second_run))"
    by (simp add: second_run_def)
  have o: "output_dir (env_at (noon\<lparr>microsecond := 500000\<rparr>)) = output_dir (env_at noon)"
    by (simp add: env_at_def)
  note T = second_load_inserts_nothing_names_follow_clock[OF r1' r2' o]
  from T[THEN conjunct1] obtain conn1 conn2 where
    c: "snd (snd first_run) = Some conn1" "snd (snd second_run) = Some conn2"
    "committed conn2 = committed conn1"
    by blast
  have n2: "database_records (fst second_run) = 0"
    by (rule T[THEN conjunct2, THEN conjunct1])
  from c db1 have "conn1 = \<lparr>committed = [rec_ana], pending = [], ops = 5\<rparr>" by simp
  then have "committed conn2 = [rec_ana]" using c(3) by simp
  then have e: "\<exists>c. snd (snd second_run) = Some c \<and> committed c = [rec_ana]"
    using c(2) by blast
  from n1 db1 n2 e show ?thesis by (intro conjI)
qed

lemma failing_load_db:
  "load_to_database sample_lib sample_std now (\<lambda>n. n = 3) empty_conn out_df
     = (Inl (DatabaseError ''mysql error''), \<lparr>committed = [], pending = [], ops = 5\<rparr>)"
proof -
  have c: "chunks 1000 [rec_ana] = [[rec_ana]]" by (simp add: chunks_single)
  show ?thesis
    by (simp add: load_to_database_def prepare_out_df insertar_personas_transformadas_def
          insertar_personas_transformadas_bulk_def bulk_body_def c db_op_def
          verificar_duplicado_def count_matching_def visible_def executemany_def rollback_def
          empty_conn_def)
qed

theorem load_failure_witness:
  "parquet_file (fst failing_run) = None \<and>
   ''Error guardando Parquet: disk full'' \<in> set (errors (fst failing_run)) \<and>
   json_file (fst failing_run) = Some ''data/output/transformed_data_20250101_120000.json'' \<and>
   ''data/output/transformed_data_20250101_120000.json'' \<in> set (fst (snd failing_run)) \<and>
   snd (snd failing_run) = Some \<lparr>committed = [], pending = [], ops = 5\<rparr> \<and>
   database_records (fst failing_run) = 0 \<and>
   ''Error cargando a base de datos: mysql error'' \<in> set (errors (fst failing_run))"
proof -
  note T = load_isolates_sink_failures_and_rolls_back
             [OF run_triple[of failing_run, unfolded failing_run_def], folded failing_run_def]
  have p: "fst (save_sink sample_lib sample_std sample_now env_fail out_df ParquetSink [])
             = Inl (IOError ''disk full'')"
    by (simp add: write_file_def env_fail_def)
  have j: "fst (save_sink sample_lib sample_std sample_now env_fail out_df JsonSink [])
             = Inr ''data/output/transformed_data_20250101_120000.json''"
    by (simp add: write_file_def env_fail_def Let_def noon_stamp)
  from T[THEN conjunct1, rule_format, of ParquetSink]
  have 1: "parquet_file (fst failing_run) = None \<and>
           ''Error guardando Parquet: disk full'' \<in> set (errors (fst failing_run))"
    unfolding p by simp
  from T[THEN conjunct1, rule_format, of JsonSink]
  have 2: "json_file (fst failing_run) = Some ''data/output/transformed_data_20250101_120000.json'' \<and>
           ''data/output/transformed_data_20250101_120000.json'' \<in> set (fst (snd failing_run))"
    unfolding j by simp
  from T[THEN conjunct2, THEN conjunct1, rule_format, of empty_conn
           "DatabaseError ''mysql error''" "\<lparr>committed = [], pending = [], ops = 5\<rparr>"]
  have 3: "snd (snd failing_run) = Some \<lparr>committed = [], pending = [], ops = 5\<rparr> \<and>
           database_records (fst failing_run) = 0 \<and>
           ''Error cargando a base de datos: mysql error'' \<in> set (errors (fst failing_run))"
    by (simp add: failing_load_db)
  from 1 2 3 show ?thesis by simp
qed











end
